theory Spec2Isabelle
  imports Complex_Main "HOL-Library.Word"
begin

unbundle bit_operations_syntax

section \<open>Shader assembly from literal styles (ol/webgl/ShaderBuilder)\<close>

text \<open>
  A shallow embedding of the module \<^verbatim>\<open>ol/webgl/ShaderBuilder\<close>: the class
  \<^verbatim>\<open>ShaderBuilder\<close> and the function \<^verbatim>\<open>parseLiteralStyle\<close>.
  Shader source text is a \<^typ>\<open>string\<close>; a line break is the character
  \<open>\<newline>\<close>. JavaScript arrays owned by one object are lists, objects with named
  fields are records, a thrown \<^verbatim>\<open>Error\<close> is the left injection of a sum.
\<close>

subsection \<open>JavaScript values\<close>

text \<open>
  The values a style field, a style variable or a feature property can hold. Numbers
  are only ever tested for being \<^verbatim>\<open>undefined\<close>, for being a string and for
  truthiness, so a number is a rational or \<^verbatim>\<open>NaN\<close> (the zero that is falsy
  is \<open>JNumber 0\<close>; infinities, which behave like any non-zero number here, are left out).
\<close>

datatype jsvalue =
    JUndefined
  | JNull
  | JBoolean bool
  | JNumber rat
  | JNaN
  | JString string
  | JArray "jsvalue list"

text \<open>\<^verbatim>\<open>ToBoolean\<close>: what \<^verbatim>\<open>x || d\<close>, \<^verbatim>\<open>!x\<close> and \<^verbatim>\<open>if (x)\<close> test.\<close>

fun truthy :: "jsvalue \<Rightarrow> bool" where
  "truthy JUndefined = False"
| "truthy JNull = False"
| "truthy (JBoolean b) = b"
| "truthy (JNumber r) = (r \<noteq> 0)"
| "truthy JNaN = False"
| "truthy (JString s) = (s \<noteq> [])"
| "truthy (JArray xs) = True"

text \<open>An object used as a dictionary: a missing key reads as \<^verbatim>\<open>undefined\<close>.\<close>

type_synonym jsobject = "string \<rightharpoonup> jsvalue"

definition property :: "jsobject \<Rightarrow> string \<Rightarrow> jsvalue" where
  "property obj key = (case obj key of None \<Rightarrow> JUndefined | Some v \<Rightarrow> v)"

text \<open>\<^verbatim>\<open>Array.prototype.join\<close> on an array of strings.\<close>

fun join :: "string \<Rightarrow> string list \<Rightarrow> string" where
  "join sep [] = []"
| "join sep [x] = x"
| "join sep (x # y # ys) = x @ sep @ join sep (y # ys)"

subsection \<open>The class ShaderBuilder\<close>

record VaryingDescription =
  varying_name :: string
  varying_type :: string
  varying_expression :: string

record ShaderBuilder =
  uniforms :: "string list"
  attributes :: "string list"
  varyings :: "VaryingDescription list"
  sizeExpression :: string
  rotationExpression :: string
  offsetExpression :: string
  colorExpression :: string
  texCoordExpression :: string
  discardExpression :: string
  rotateWithView :: bool

text \<open>The constructor (lines 28-82).\<close>

definition new_ShaderBuilder :: ShaderBuilder where
  "new_ShaderBuilder =
     \<lparr> uniforms = [],
       attributes = [],
       varyings = [],
       sizeExpression = ''vec2(1.0)'',
       rotationExpression = ''0.0'',
       offsetExpression = ''vec2(0.0)'',
       colorExpression = ''vec4(1.0)'',
       texCoordExpression = ''vec4(0.0, 0.0, 1.0, 1.0)'',
       discardExpression = ''false'',
       rotateWithView = False \<rparr>"

text \<open>
  The mutators (lines 89-197). Each changes one field of \<^verbatim>\<open>this\<close> and returns
  \<^verbatim>\<open>this\<close>; the model returns the updated builder.
\<close>

definition addUniform :: "string \<Rightarrow> ShaderBuilder \<Rightarrow> ShaderBuilder" where
  "addUniform name this = this\<lparr>uniforms := uniforms this @ [name]\<rparr>"

definition addAttribute :: "string \<Rightarrow> ShaderBuilder \<Rightarrow> ShaderBuilder" where
  "addAttribute name this = this\<lparr>attributes := attributes this @ [name]\<rparr>"

definition addVarying :: "string \<Rightarrow> string \<Rightarrow> string \<Rightarrow> ShaderBuilder \<Rightarrow> ShaderBuilder" where
  "addVarying name type expression this =
     this\<lparr>varyings := varyings this @
       [\<lparr>varying_name = name, varying_type = type, varying_expression = expression\<rparr>]\<rparr>"

definition setSizeExpression :: "string \<Rightarrow> ShaderBuilder \<Rightarrow> ShaderBuilder" where
  "setSizeExpression expression this = this\<lparr>sizeExpression := expression\<rparr>"

definition setRotationExpression :: "string \<Rightarrow> ShaderBuilder \<Rightarrow> ShaderBuilder" where
  "setRotationExpression expression this = this\<lparr>rotationExpression := expression\<rparr>"

definition setSymbolOffsetExpression :: "string \<Rightarrow> ShaderBuilder \<Rightarrow> ShaderBuilder" where
  "setSymbolOffsetExpression expression this = this\<lparr>offsetExpression := expression\<rparr>"

definition setColorExpression :: "string \<Rightarrow> ShaderBuilder \<Rightarrow> ShaderBuilder" where
  "setColorExpression expression this = this\<lparr>colorExpression := expression\<rparr>"

definition setTextureCoordinateExpression :: "string \<Rightarrow> ShaderBuilder \<Rightarrow> ShaderBuilder" where
  "setTextureCoordinateExpression expression this = this\<lparr>texCoordExpression := expression\<rparr>"

definition setFragmentDiscardExpression :: "string \<Rightarrow> ShaderBuilder \<Rightarrow> ShaderBuilder" where
  "setFragmentDiscardExpression expression this = this\<lparr>discardExpression := expression\<rparr>"

definition setSymbolRotateWithView :: "bool \<Rightarrow> ShaderBuilder \<Rightarrow> ShaderBuilder" where
  "setSymbolRotateWithView b this = this\<lparr>rotateWithView := b\<rparr>"

text \<open>The getters (lines 201-227).\<close>

definition getSizeExpression :: "ShaderBuilder \<Rightarrow> string" where
  "getSizeExpression this = sizeExpression this"

definition getOffsetExpression :: "ShaderBuilder \<Rightarrow> string" where
  "getOffsetExpression this = offsetExpression this"

definition getColorExpression :: "ShaderBuilder \<Rightarrow> string" where
  "getColorExpression this = colorExpression this"

definition getTextureCoordinateExpression :: "ShaderBuilder \<Rightarrow> string" where
  "getTextureCoordinateExpression this = texCoordExpression this"

definition getFragmentDiscardExpression :: "ShaderBuilder \<Rightarrow> string" where
  "getFragmentDiscardExpression this = discardExpression this"

text \<open>
  The varying that both shader generators add for hit detection, and the three
  callbacks they map over the declaration lists.
\<close>

definition hitColorVarying :: VaryingDescription where
  "hitColorVarying =
     \<lparr>varying_name = ''v_hitColor'', varying_type = ''vec4'', varying_expression = ''a_hitColor''\<rparr>"

definition uniformLine :: "string \<Rightarrow> string" where
  "uniformLine uniform = ''uniform '' @ uniform @ '';''"

definition attributeLine :: "string \<Rightarrow> string" where
  "attributeLine attribute = ''attribute '' @ attribute @ '';''"

definition varyingLine :: "VaryingDescription \<Rightarrow> string" where
  "varyingLine varying = ''varying '' @ varying_type varying @ '' '' @ varying_name varying @ '';''"

definition varyingAssignment :: "VaryingDescription \<Rightarrow> string" where
  "varyingAssignment varying =
     ''  '' @ varying_name varying @ '' = '' @ varying_expression varying @ '';''"

text \<open>
  \<^verbatim>\<open>getSymbolVertexShader\<close> (lines 245-276). A method call is a step on the
  builder: it returns the text and the builder as the call leaves it. The locals
  \<^verbatim>\<open>attributes\<close> and \<^verbatim>\<open>varyings\<close> first alias the builder's arrays;
  \<^verbatim>\<open>concat\<close> then binds them to new arrays and writes to neither
  \<^verbatim>\<open>this.attributes\<close> nor \<^verbatim>\<open>this.varyings\<close>.
\<close>

definition getSymbolVertexShader :: "bool \<Rightarrow> ShaderBuilder \<Rightarrow> string \<times> ShaderBuilder" where
  "getSymbolVertexShader forHitDetection this =
    (let offsetMatrix =
           (if rotateWithView this
            then ''u_offsetScaleMatrix * u_offsetRotateMatrix''
            else ''u_offsetScaleMatrix'');
         attributes' =
           (if forHitDetection then attributes this @ [''vec4 a_hitColor''] else attributes this);
         varyings' =
           (if forHitDetection then varyings this @ [hitColorVarying] else varyings this)
     in
     (''precision mediump float;\<newline>'' @
      ''uniform mat4 u_projectionMatrix;\<newline>'' @
      ''uniform mat4 u_offsetScaleMatrix;\<newline>'' @
      ''uniform mat4 u_offsetRotateMatrix;\<newline>'' @
      ''uniform float u_time;\<newline>'' @
      ''uniform float u_zoom;\<newline>'' @
      ''uniform float u_resolution;\<newline>'' @
      join ''\<newline>'' (map uniformLine (uniforms this)) @
      ''\<newline>'' @
      ''attribute vec2 a_position;\<newline>'' @
      ''attribute float a_index;\<newline>'' @
      join ''\<newline>'' (map attributeLine attributes') @
      ''\<newline>'' @
      ''varying vec2 v_texCoord;\<newline>'' @
      ''varying vec2 v_quadCoord;\<newline>'' @
      join ''\<newline>'' (map varyingLine varyings') @
      ''\<newline>'' @
      ''void main(void) {\<newline>'' @
      ''  mat4 offsetMatrix = '' @
      offsetMatrix @
      '';\<newline>'' @
      ''  vec2 halfSize = '' @
      sizeExpression this @
      '' * 0.5;\<newline>'' @
      ''  vec2 offset = '' @
      offsetExpression this @
      '';\<newline>'' @
      ''  float angle = '' @
      rotationExpression this @
      '';\<newline>'' @
      ''  float offsetX;\<newline>'' @
      ''  float offsetY;\<newline>'' @
      ''  if (a_index == 0.0) {\<newline>'' @
      ''    offsetX = (offset.x - halfSize.x) * cos(angle) + (offset.y - halfSize.y) * sin(angle);\<newline>'' @
      ''    offsetY = (offset.y - halfSize.y) * cos(angle) - (offset.x - halfSize.x) * sin(angle);\<newline>'' @
      ''  } else if (a_index == 1.0) {\<newline>'' @
      ''    offsetX = (offset.x + halfSize.x) * cos(angle) + (offset.y - halfSize.y) * sin(angle);\<newline>'' @
      ''    offsetY = (offset.y - halfSize.y) * cos(angle) - (offset.x + halfSize.x) * sin(angle);\<newline>'' @
      ''  } else if (a_index == 2.0) {\<newline>'' @
      ''    offsetX = (offset.x + halfSize.x) * cos(angle) + (offset.y + halfSize.y) * sin(angle);\<newline>'' @
      ''    offsetY = (offset.y + halfSize.y) * cos(angle) - (offset.x + halfSize.x) * sin(angle);\<newline>'' @
      ''  } else {\<newline>'' @
      ''    offsetX = (offset.x - halfSize.x) * cos(angle) + (offset.y + halfSize.y) * sin(angle);\<newline>'' @
      ''    offsetY = (offset.y + halfSize.y) * cos(angle) - (offset.x - halfSize.x) * sin(angle);\<newline>'' @
      ''  }\<newline>'' @
      ''  vec4 offsets = offsetMatrix * vec4(offsetX, offsetY, 0.0, 0.0);\<newline>'' @
      ''  gl_Position = u_projectionMatrix * vec4(a_position, 0.0, 1.0) + offsets;\<newline>'' @
      ''  vec4 texCoord = '' @
      texCoordExpression this @
      '';\<newline>'' @
      ''  float u = a_index == 0.0 || a_index == 3.0 ? texCoord.s : texCoord.p;\<newline>'' @
      ''  float v = a_index == 2.0 || a_index == 3.0 ? texCoord.t : texCoord.q;\<newline>'' @
      ''  v_texCoord = vec2(u, v);\<newline>'' @
      ''  u = a_index == 0.0 || a_index == 3.0 ? 0.0 : 1.0;\<newline>'' @
      ''  v = a_index == 2.0 || a_index == 3.0 ? 0.0 : 1.0;\<newline>'' @
      ''  v_quadCoord = vec2(u, v);\<newline>'' @
      join ''\<newline>'' (map varyingAssignment varyings') @
      ''\<newline>'' @
      ''}'',
      this))"

text \<open>\<^verbatim>\<open>getSymbolFragmentShader\<close> (lines 288-309), as a step on the builder too.\<close>

definition getSymbolFragmentShader :: "bool \<Rightarrow> ShaderBuilder \<Rightarrow> string \<times> ShaderBuilder" where
  "getSymbolFragmentShader forHitDetection this =
    (let hitDetectionBypass =
           (if forHitDetection
            then ''  if (gl_FragColor.a < 0.1) { discard; } gl_FragColor = v_hitColor;''
            else '''');
         varyings' =
           (if forHitDetection then varyings this @ [hitColorVarying] else varyings this)
     in
     (''precision mediump float;\<newline>'' @
      ''uniform float u_time;\<newline>'' @
      ''uniform float u_zoom;\<newline>'' @
      ''uniform float u_resolution;\<newline>'' @
      join ''\<newline>'' (map uniformLine (uniforms this)) @
      ''\<newline>'' @
      ''varying vec2 v_texCoord;\<newline>'' @
      ''varying vec2 v_quadCoord;\<newline>'' @
      join ''\<newline>'' (map varyingLine varyings') @
      ''\<newline>'' @
      ''void main(void) {\<newline>'' @
      ''  if ('' @
      discardExpression this @
      '') { discard; }\<newline>'' @
      ''  gl_FragColor = '' @
      colorExpression this @
      '';\<newline>'' @
      ''  gl_FragColor.rgb *= gl_FragColor.a;\<newline>'' @
      hitDetectionBypass @
      ''\<newline>'' @
      ''}'',
      this))"

subsection \<open>The builder and its arrays as objects of a store\<close>

text \<open>
  In the source a \<^verbatim>\<open>ShaderBuilder\<close> and its three arrays are objects with
  identity: a field or a local variable holds a reference, \<^verbatim>\<open>push\<close> changes the
  array a reference points to, \<^verbatim>\<open>concat\<close> creates a new array and leaves its
  receiver alone. To state what a call of the two generators writes, this section has
  the constructor, the three \<^verbatim>\<open>add\<close> methods and the two generators on a store
  of such objects. A reference is the index of an object in the store; a new object goes
  to the end of its list, so no existing reference points to it.
\<close>

type_synonym ref = nat

text \<open>The fields of a \<^verbatim>\<open>ShaderBuilder\<close> instance (lines 34-81).\<close>

record BuilderObject =
  this_uniforms :: ref
  this_attributes :: ref
  this_varyings :: ref
  this_sizeExpression :: string
  this_rotationExpression :: string
  this_offsetExpression :: string
  this_colorExpression :: string
  this_texCoordExpression :: string
  this_discardExpression :: string
  this_rotateWithView :: bool

record Store =
  stringArrays :: "string list list"
  varyingArrays :: "VaryingDescription list list"
  builders :: "BuilderObject list"

text \<open>\<^verbatim>\<open>array.push(x)\<close>: the array itself changes.\<close>

definition pushString :: "ref \<Rightarrow> string \<Rightarrow> Store \<Rightarrow> Store" where
  "pushString array x s =
     s\<lparr>stringArrays := (stringArrays s)[array := stringArrays s ! array @ [x]]\<rparr>"

definition pushVarying :: "ref \<Rightarrow> VaryingDescription \<Rightarrow> Store \<Rightarrow> Store" where
  "pushVarying array x s =
     s\<lparr>varyingArrays := (varyingArrays s)[array := varyingArrays s ! array @ [x]]\<rparr>"

text \<open>
  \<^verbatim>\<open>array.concat(x)\<close>: a new array with the elements of \<^verbatim>\<open>array\<close> and then
  \<^verbatim>\<open>x\<close>; the result is the reference to it and the store that holds it.
\<close>

definition concatString :: "ref \<Rightarrow> string \<Rightarrow> Store \<Rightarrow> ref \<times> Store" where
  "concatString array x s =
     (length (stringArrays s),
      s\<lparr>stringArrays := stringArrays s @ [stringArrays s ! array @ [x]]\<rparr>)"

definition concatVarying :: "ref \<Rightarrow> VaryingDescription \<Rightarrow> Store \<Rightarrow> ref \<times> Store" where
  "concatVarying array x s =
     (length (varyingArrays s),
      s\<lparr>varyingArrays := varyingArrays s @ [varyingArrays s ! array @ [x]]\<rparr>)"

text \<open>\<^verbatim>\<open>new ShaderBuilder()\<close> (lines 28-82): three new empty arrays and the instance.\<close>

definition store_new_ShaderBuilder :: "Store \<Rightarrow> ref \<times> Store" where
  "store_new_ShaderBuilder s =
     (length (builders s),
      s\<lparr>stringArrays := stringArrays s @ [[], []],
        varyingArrays := varyingArrays s @ [[]],
        builders := builders s @
          [\<lparr>this_uniforms = length (stringArrays s),
            this_attributes = Suc (length (stringArrays s)),
            this_varyings = length (varyingArrays s),
            this_sizeExpression = ''vec2(1.0)'',
            this_rotationExpression = ''0.0'',
            this_offsetExpression = ''vec2(0.0)'',
            this_colorExpression = ''vec4(1.0)'',
            this_texCoordExpression = ''vec4(0.0, 0.0, 1.0, 1.0)'',
            this_discardExpression = ''false'',
            this_rotateWithView = False\<rparr>]\<rparr>)"

text \<open>\<^verbatim>\<open>addUniform\<close>, \<^verbatim>\<open>addAttribute\<close>, \<^verbatim>\<open>addVarying\<close> (lines 89-118).\<close>

definition store_addUniform :: "string \<Rightarrow> ref \<Rightarrow> Store \<Rightarrow> Store" where
  "store_addUniform name this s = pushString (this_uniforms (builders s ! this)) name s"

definition store_addAttribute :: "string \<Rightarrow> ref \<Rightarrow> Store \<Rightarrow> Store" where
  "store_addAttribute name this s = pushString (this_attributes (builders s ! this)) name s"

definition store_addVarying :: "string \<Rightarrow> string \<Rightarrow> string \<Rightarrow> ref \<Rightarrow> Store \<Rightarrow> Store" where
  "store_addVarying name type expression this s =
     pushVarying (this_varyings (builders s ! this))
       \<lparr>varying_name = name, varying_type = type, varying_expression = expression\<rparr> s"

text \<open>
  What a builder holds in a store: the contents of its three arrays and its slots. This
  is the builder of the sections above.
\<close>

definition builderState :: "Store \<Rightarrow> ref \<Rightarrow> ShaderBuilder" where
  "builderState s this =
     \<lparr>uniforms = stringArrays s ! this_uniforms (builders s ! this),
      attributes = stringArrays s ! this_attributes (builders s ! this),
      varyings = varyingArrays s ! this_varyings (builders s ! this),
      sizeExpression = this_sizeExpression (builders s ! this),
      rotationExpression = this_rotationExpression (builders s ! this),
      offsetExpression = this_offsetExpression (builders s ! this),
      colorExpression = this_colorExpression (builders s ! this),
      texCoordExpression = this_texCoordExpression (builders s ! this),
      discardExpression = this_discardExpression (builders s ! this),
      rotateWithView = this_rotateWithView (builders s ! this)\<rparr>"

text \<open>A reference to a builder of the store, whose fields refer to arrays of the store.\<close>

definition wellFormed :: "Store \<Rightarrow> ref \<Rightarrow> bool" where
  "wellFormed s this \<longleftrightarrow>
     this < length (builders s) \<and>
     this_uniforms (builders s ! this) < length (stringArrays s) \<and>
     this_attributes (builders s ! this) < length (stringArrays s) \<and>
     this_varyings (builders s ! this) < length (varyingArrays s)"

text \<open>
  The template literal of lines 259-275, with names for the values it reads.
\<close>

definition vertexTemplate ::
  "string \<Rightarrow> string list \<Rightarrow> string list \<Rightarrow> VaryingDescription list \<Rightarrow>
   string \<Rightarrow> string \<Rightarrow> string \<Rightarrow> string \<Rightarrow> string" where
  "vertexTemplate offsetMatrix uniforms' attributes' varyings' sizeExpression' offsetExpression'
     rotationExpression' texCoordExpression' =
     ''precision mediump float;\<newline>'' @
     ''uniform mat4 u_projectionMatrix;\<newline>'' @
     ''uniform mat4 u_offsetScaleMatrix;\<newline>'' @
     ''uniform mat4 u_offsetRotateMatrix;\<newline>'' @
     ''uniform float u_time;\<newline>'' @
     ''uniform float u_zoom;\<newline>'' @
     ''uniform float u_resolution;\<newline>'' @
     join ''\<newline>'' (map uniformLine uniforms') @
     ''\<newline>'' @
     ''attribute vec2 a_position;\<newline>'' @
     ''attribute float a_index;\<newline>'' @
     join ''\<newline>'' (map attributeLine attributes') @
     ''\<newline>'' @
     ''varying vec2 v_texCoord;\<newline>'' @
     ''varying vec2 v_quadCoord;\<newline>'' @
     join ''\<newline>'' (map varyingLine varyings') @
     ''\<newline>'' @
     ''void main(void) {\<newline>'' @
     ''  mat4 offsetMatrix = '' @
     offsetMatrix @
     '';\<newline>'' @
     ''  vec2 halfSize = '' @
     sizeExpression' @
     '' * 0.5;\<newline>'' @
     ''  vec2 offset = '' @
     offsetExpression' @
     '';\<newline>'' @
     ''  float angle = '' @
     rotationExpression' @
     '';\<newline>'' @
     ''  float offsetX;\<newline>'' @
     ''  float offsetY;\<newline>'' @
     ''  if (a_index == 0.0) {\<newline>'' @
     ''    offsetX = (offset.x - halfSize.x) * cos(angle) + (offset.y - halfSize.y) * sin(angle);\<newline>'' @
     ''    offsetY = (offset.y - halfSize.y) * cos(angle) - (offset.x - halfSize.x) * sin(angle);\<newline>'' @
     ''  } else if (a_index == 1.0) {\<newline>'' @
     ''    offsetX = (offset.x + halfSize.x) * cos(angle) + (offset.y - halfSize.y) * sin(angle);\<newline>'' @
     ''    offsetY = (offset.y - halfSize.y) * cos(angle) - (offset.x + halfSize.x) * sin(angle);\<newline>'' @
     ''  } else if (a_index == 2.0) {\<newline>'' @
     ''    offsetX = (offset.x + halfSize.x) * cos(angle) + (offset.y + halfSize.y) * sin(angle);\<newline>'' @
     ''    offsetY = (offset.y + halfSize.y) * cos(angle) - (offset.x + halfSize.x) * sin(angle);\<newline>'' @
     ''  } else {\<newline>'' @
     ''    offsetX = (offset.x - halfSize.x) * cos(angle) + (offset.y + halfSize.y) * sin(angle);\<newline>'' @
     ''    offsetY = (offset.y + halfSize.y) * cos(angle) - (offset.x - halfSize.x) * sin(angle);\<newline>'' @
     ''  }\<newline>'' @
     ''  vec4 offsets = offsetMatrix * vec4(offsetX, offsetY, 0.0, 0.0);\<newline>'' @
     ''  gl_Position = u_projectionMatrix * vec4(a_position, 0.0, 1.0) + offsets;\<newline>'' @
     ''  vec4 texCoord = '' @
     texCoordExpression' @
     '';\<newline>'' @
     ''  float u = a_index == 0.0 || a_index == 3.0 ? texCoord.s : texCoord.p;\<newline>'' @
     ''  float v = a_index == 2.0 || a_index == 3.0 ? texCoord.t : texCoord.q;\<newline>'' @
     ''  v_texCoord = vec2(u, v);\<newline>'' @
     ''  u = a_index == 0.0 || a_index == 3.0 ? 0.0 : 1.0;\<newline>'' @
     ''  v = a_index == 2.0 || a_index == 3.0 ? 0.0 : 1.0;\<newline>'' @
     ''  v_quadCoord = vec2(u, v);\<newline>'' @
     join ''\<newline>'' (map varyingAssignment varyings') @
     ''\<newline>'' @
     ''}''"

text \<open>The template literal of lines 300-308, likewise.\<close>

definition fragmentTemplate ::
  "string \<Rightarrow> string list \<Rightarrow> VaryingDescription list \<Rightarrow> string \<Rightarrow> string \<Rightarrow> string" where
  "fragmentTemplate hitDetectionBypass uniforms' varyings' discardExpression' colorExpression' =
     ''precision mediump float;\<newline>'' @
     ''uniform float u_time;\<newline>'' @
     ''uniform float u_zoom;\<newline>'' @
     ''uniform float u_resolution;\<newline>'' @
     join ''\<newline>'' (map uniformLine uniforms') @
     ''\<newline>'' @
     ''varying vec2 v_texCoord;\<newline>'' @
     ''varying vec2 v_quadCoord;\<newline>'' @
     join ''\<newline>'' (map varyingLine varyings') @
     ''\<newline>'' @
     ''void main(void) {\<newline>'' @
     ''  if ('' @
     discardExpression' @
     '') { discard; }\<newline>'' @
     ''  gl_FragColor = '' @
     colorExpression' @
     '';\<newline>'' @
     ''  gl_FragColor.rgb *= gl_FragColor.a;\<newline>'' @
     hitDetectionBypass @
     ''\<newline>'' @
     ''}''"

text \<open>
  \<^verbatim>\<open>getSymbolVertexShader\<close> (lines 245-276) on the store. The locals
  \<^verbatim>\<open>attributes\<close> and \<^verbatim>\<open>varyings\<close> are references: first those of the fields,
  then, for hit detection, those that \<^verbatim>\<open>concat\<close> returns. The template reads the
  arrays they refer to, and the fields of \<^verbatim>\<open>this\<close>, in the store as it is then.
  The result is the text and the store as the call leaves it.
\<close>

definition store_getSymbolVertexShader :: "bool \<Rightarrow> ref \<Rightarrow> Store \<Rightarrow> string \<times> Store" where
  "store_getSymbolVertexShader forHitDetection this s =
    (let offsetMatrix =
           (if this_rotateWithView (builders s ! this)
            then ''u_offsetScaleMatrix * u_offsetRotateMatrix''
            else ''u_offsetScaleMatrix'');
         attributes0 = this_attributes (builders s ! this);
         varyings0 = this_varyings (builders s ! this);
         concat1 =
           (if forHitDetection then concatString attributes0 ''vec4 a_hitColor'' s
            else (attributes0, s));
         attributes1 = fst concat1;
         concat2 =
           (if forHitDetection then concatVarying varyings0 hitColorVarying (snd concat1)
            else (varyings0, snd concat1));
         varyings1 = fst concat2;
         s' = snd concat2
     in
     (vertexTemplate offsetMatrix
        (stringArrays s' ! this_uniforms (builders s' ! this))
        (stringArrays s' ! attributes1)
        (varyingArrays s' ! varyings1)
        (this_sizeExpression (builders s' ! this))
        (this_offsetExpression (builders s' ! this))
        (this_rotationExpression (builders s' ! this))
        (this_texCoordExpression (builders s' ! this)),
      s'))"

text \<open>\<^verbatim>\<open>getSymbolFragmentShader\<close> (lines 288-309) on the store.\<close>

definition store_getSymbolFragmentShader :: "bool \<Rightarrow> ref \<Rightarrow> Store \<Rightarrow> string \<times> Store" where
  "store_getSymbolFragmentShader forHitDetection this s =
    (let hitDetectionBypass =
           (if forHitDetection
            then ''  if (gl_FragColor.a < 0.1) { discard; } gl_FragColor = v_hitColor;''
            else '''');
         varyings0 = this_varyings (builders s ! this);
         concat1 =
           (if forHitDetection then concatVarying varyings0 hitColorVarying s
            else (varyings0, s));
         varyings1 = fst concat1;
         s' = snd concat1
     in
     (fragmentTemplate hitDetectionBypass
        (stringArrays s' ! this_uniforms (builders s' ! this))
        (varyingArrays s' ! varyings1)
        (this_discardExpression (builders s' ! this))
        (this_colorExpression (builders s' ! this)),
      s'))"

subsection \<open>The external expression compiler (ol/style/expressions)\<close>

text \<open>
  A parsing context (\<^verbatim>\<open>ParsingContext\<close> of \<^verbatim>\<open>ol/style/expressions\<close>). The
  two objects \<^verbatim>\<open>stringLiteralsMap\<close> and \<^verbatim>\<open>functions\<close> are dictionaries
  whose keys keep their insertion order: association lists.
\<close>

record ParsingContext =
  inFragmentShader :: bool
  variables :: "string list"
  context_attributes :: "string list"
  stringLiteralsMap :: "(string \<times> jsvalue) list"
  context_functions :: "(string \<times> string) list"

text \<open>
  What \<^verbatim>\<open>parseLiteralStyle\<close> imports from \<^verbatim>\<open>ol/style/expressions\<close> (line 5).
  The module is not part of the sources at hand, so its exports are parameters of the
  model, and every theorem below holds for all of them:
  \<^item> the type flags of \<^verbatim>\<open>ValueTypes\<close> that the code uses, 32-bit integers as
    the operator \<^verbatim>\<open>|\<close> sees them;
  \<^item> \<^verbatim>\<open>expressionToGlsl(context, value, typeHint)\<close>, which either throws (a
    message, on the left) or returns shader text, having changed the arrays and
    dictionaries of the context in place (the context as the call leaves it, on the
    right). It is taken to change them in place only, as pushing a name or setting a key
    does, and not to bind a field of the context to another array or dictionary;
  \<^item> \<^verbatim>\<open>getStringNumberEquivalent(context, string)\<close>, likewise;
  \<^item> \<^verbatim>\<open>uniformNameForVariable(variableName)\<close>.
\<close>

record expressions =
  NUMBER :: "32 word"
  COLOR :: "32 word"
  BOOLEAN :: "32 word"
  NUMBER_ARRAY :: "32 word"
  expressionToGlsl ::
    "ParsingContext \<Rightarrow> jsvalue \<Rightarrow> 32 word \<Rightarrow> string + (string \<times> ParsingContext)"
  getStringNumberEquivalent ::
    "ParsingContext \<Rightarrow> string \<Rightarrow> string + (jsvalue \<times> ParsingContext)"
  uniformNameForVariable :: "string \<Rightarrow> string"

subsection \<open>Errors\<close>

datatype error =
    UnexpectedSymbolType jsvalue
  | MissingVariable string
  | ExpressionError string

text \<open>An error thrown by the external module propagates unchanged.\<close>

definition delegated :: "string + 'a \<Rightarrow> error + 'a" where
  "delegated r = (case r of Inl message \<Rightarrow> Inl (ExpressionError message) | Inr x \<Rightarrow> Inr x)"

text \<open>Sequencing: a throw ends the function, a return feeds the statements after it.\<close>

definition andThen :: "error + 'a \<Rightarrow> ('a \<Rightarrow> error + 'b) \<Rightarrow> error + 'b" where
  "andThen r k = (case r of Inl e \<Rightarrow> Inl e | Inr x \<Rightarrow> k x)"

subsection \<open>The style and the result\<close>

text \<open>
  \<^verbatim>\<open>style.symbol\<close>: every field may hold any value, \<^verbatim>\<open>undefined\<close> when it
  is absent.
\<close>

record LiteralSymbolStyle =
  symbolType :: jsvalue
  symbol_size :: jsvalue
  color :: jsvalue
  textureCoord :: jsvalue
  offset :: jsvalue
  opacity :: jsvalue
  rotation :: jsvalue
  symbol_rotateWithView :: jsvalue
  src :: jsvalue
  crossOrigin :: jsvalue

text \<open>
  The style. \<^verbatim>\<open>style.variables\<close> is a dictionary or missing (\<open>None\<close>, which
  is what \<^verbatim>\<open>!style.variables\<close> tests); a key of the dictionary may be present
  with the value \<^verbatim>\<open>undefined\<close>.
\<close>

record LiteralStyle =
  symbol :: LiteralSymbolStyle
  style_filter :: jsvalue
  style_variables :: "jsobject option"

text \<open>The \<^verbatim>\<open>Image\<close> element created for a textured symbol (lines 412-415).\<close>

record Image =
  image_crossOrigin :: jsvalue
  image_src :: jsvalue

text \<open>
  A value of the returned \<^verbatim>\<open>uniforms\<close> dictionary: a function or the image. The
  function closes over the style and over \<^verbatim>\<open>vertContext\<close> and reads both when it
  is called, so it takes \<^verbatim>\<open>style.variables\<close> and the context as they are then,
  and returns the context as it leaves it.
\<close>

datatype UniformValue =
    UniformFunction "jsobject option \<Rightarrow> ParsingContext \<Rightarrow> error + (jsvalue \<times> ParsingContext)"
  | UniformTexture Image

text \<open>
  An entry of the returned \<^verbatim>\<open>attributes\<close> array. The callback's first argument,
  the feature, is not used; the second is the feature's properties.
\<close>

record CustomAttribute =
  attribute_name :: string
  callback :: "jsobject \<Rightarrow> ParsingContext \<Rightarrow> error + (jsvalue \<times> ParsingContext)"

text \<open>
  The returned object, and with it the state of \<^verbatim>\<open>vertContext\<close>, which the
  returned functions close over, at the moment of the return.
\<close>

record StyleParseResult =
  builder :: ShaderBuilder
  result_attributes :: "CustomAttribute list"
  result_uniforms :: "string \<rightharpoonup> UniformValue"
  result_vertContext :: ParsingContext

subsection \<open>parseLiteralStyle\<close>

text \<open>The defaults of lines 332-337.\<close>

definition size_or_default :: "LiteralSymbolStyle \<Rightarrow> jsvalue" where
  "size_or_default symbStyle =
     (if symbol_size symbStyle \<noteq> JUndefined then symbol_size symbStyle else JNumber 1)"

definition color_or_default :: "LiteralSymbolStyle \<Rightarrow> jsvalue" where
  "color_or_default symbStyle =
     (if truthy (color symbStyle) then color symbStyle else JString ''white'')"

definition texCoord_or_default :: "LiteralSymbolStyle \<Rightarrow> jsvalue" where
  "texCoord_or_default symbStyle =
     (if truthy (textureCoord symbStyle) then textureCoord symbStyle
      else JArray [JNumber 0, JNumber 0, JNumber 1, JNumber 1])"

definition offset_or_default :: "LiteralSymbolStyle \<Rightarrow> jsvalue" where
  "offset_or_default symbStyle =
     (if truthy (offset symbStyle) then offset symbStyle else JArray [JNumber 0, JNumber 0])"

definition opacity_or_default :: "LiteralSymbolStyle \<Rightarrow> jsvalue" where
  "opacity_or_default symbStyle =
     (if opacity symbStyle \<noteq> JUndefined then opacity symbStyle else JNumber 1)"

definition rotation_or_default :: "LiteralSymbolStyle \<Rightarrow> jsvalue" where
  "rotation_or_default symbStyle =
     (if rotation symbStyle \<noteq> JUndefined then rotation symbStyle else JNumber 0)"

text \<open>
  The fragment context is created with the array \<^verbatim>\<open>variables\<close> and the
  dictionary \<^verbatim>\<open>stringLiteralsMap\<close> of the vertex context (lines 357 and 359):
  what a call on the fragment context leaves in them is what the vertex context holds.
\<close>

definition shareWith :: "ParsingContext \<Rightarrow> ParsingContext \<Rightarrow> ParsingContext" where
  "shareWith fragContext vertContext =
     vertContext\<lparr>variables := variables fragContext,
                 stringLiteralsMap := stringLiteralsMap fragContext\<rparr>"

text \<open>The locals of \<^verbatim>\<open>parseLiteralStyle\<close> when it reaches the switch of line 366.\<close>

record Compiled =
  parsedSize :: string
  parsedOffset :: string
  parsedTexCoord :: string
  parsedRotation :: string
  parsedColor :: string
  parsedOpacity :: string
  visibleSize :: string
  vertContext :: ParsingContext
  fragContext :: ParsingContext

text \<open>Lines 331-365: the seven calls of the expression compiler, in this order.\<close>

definition compileSymbol :: "expressions \<Rightarrow> LiteralSymbolStyle \<Rightarrow> error + Compiled" where
  "compileSymbol X symbStyle =
    (let vertContext0 =
           \<lparr>inFragmentShader = False, variables = [], context_attributes = [],
            stringLiteralsMap = [], context_functions = []\<rparr>
     in
     andThen (delegated (expressionToGlsl X vertContext0 (size_or_default symbStyle)
                (NUMBER_ARRAY X OR NUMBER X))) (\<lambda>(parsedSize', vertContext1).
     andThen (delegated (expressionToGlsl X vertContext1 (offset_or_default symbStyle)
                (NUMBER_ARRAY X))) (\<lambda>(parsedOffset', vertContext2).
     andThen (delegated (expressionToGlsl X vertContext2 (texCoord_or_default symbStyle)
                (NUMBER_ARRAY X))) (\<lambda>(parsedTexCoord', vertContext3).
     andThen (delegated (expressionToGlsl X vertContext3 (rotation_or_default symbStyle)
                (NUMBER X))) (\<lambda>(parsedRotation', vertContext4).
     let fragContext0 =
           \<lparr>inFragmentShader = True, variables = variables vertContext4,
            context_attributes = [], stringLiteralsMap = stringLiteralsMap vertContext4,
            context_functions = []\<rparr>
     in
     andThen (delegated (expressionToGlsl X fragContext0 (color_or_default symbStyle)
                (COLOR X))) (\<lambda>(parsedColor', fragContext1).
     andThen (delegated (expressionToGlsl X fragContext1 (opacity_or_default symbStyle)
                (NUMBER X))) (\<lambda>(parsedOpacity', fragContext2).
     andThen (delegated (expressionToGlsl X fragContext2 (size_or_default symbStyle)
                (NUMBER_ARRAY X OR NUMBER X))) (\<lambda>(fragSize, fragContext3).
     Inr \<lparr>parsedSize = parsedSize',
          parsedOffset = parsedOffset',
          parsedTexCoord = parsedTexCoord',
          parsedRotation = parsedRotation',
          parsedColor = parsedColor',
          parsedOpacity = parsedOpacity',
          visibleSize = ''vec2('' @ fragSize @ '').x'',
          vertContext = shareWith fragContext3 vertContext4,
          fragContext = fragContext3\<rparr>))))))))"

text \<open>Lines 364 and 366-382: the switch on the symbol type.\<close>

definition opacityFilter :: "LiteralSymbolStyle \<Rightarrow> string \<Rightarrow> error + string" where
  "opacityFilter symbStyle visibleSize' =
    (if symbolType symbStyle = JString ''square'' then Inr ''1.0''
     else if symbolType symbStyle = JString ''image'' then Inr ''1.0''
     else if symbolType symbStyle = JString ''circle'' then
       Inr (''(1.0-smoothstep(1.-4./'' @ visibleSize' @
            '',1.,dot(v_quadCoord-.5,v_quadCoord-.5)*4.))'')
     else if symbolType symbStyle = JString ''triangle'' then
       (let st = ''(v_quadCoord*2.-1.)'';
            a = ''(atan('' @ st @ ''.x,'' @ st @ ''.y))''
        in Inr (''(1.0-smoothstep(.5-3./'' @ visibleSize' @ '',.5,cos(floor(.5+'' @ a @
                ''/2.094395102)*2.094395102-'' @ a @ '')*length('' @ st @ '')))''))
     else Inl (UnexpectedSymbolType (symbolType symbStyle)))"

text \<open>Lines 383-389: the builder is created and its slots are set.\<close>

definition configuredBuilder :: "LiteralSymbolStyle \<Rightarrow> Compiled \<Rightarrow> string \<Rightarrow> ShaderBuilder" where
  "configuredBuilder symbStyle c opacityFilter' =
     setColorExpression
       (''vec4('' @ parsedColor c @ ''.rgb, '' @ parsedColor c @ ''.a * '' @ parsedOpacity c @
        '' * '' @ opacityFilter' @ '')'')
       (setSymbolRotateWithView (truthy (symbol_rotateWithView symbStyle))
         (setTextureCoordinateExpression (parsedTexCoord c)
           (setSymbolOffsetExpression (parsedOffset c)
             (setRotationExpression (parsedRotation c)
               (setSizeExpression (''vec2('' @ parsedSize c @ '')'') new_ShaderBuilder)))))"

text \<open>
  Lines 390-393: the filter. The result is the builder and the two contexts as the
  statement leaves them.
\<close>

definition compileFilter ::
  "expressions \<Rightarrow> LiteralStyle \<Rightarrow> Compiled \<Rightarrow> ShaderBuilder \<Rightarrow>
   error + (ShaderBuilder \<times> ParsingContext \<times> ParsingContext)" where
  "compileFilter X style c builder' =
    (if truthy (style_filter style) then
       andThen (delegated (expressionToGlsl X (fragContext c) (style_filter style) (BOOLEAN X)))
         (\<lambda>(parsedFilter, fragContext').
            Inr (setFragmentDiscardExpression (''!'' @ parsedFilter) builder',
                 shareWith fragContext' (vertContext c), fragContext'))
     else Inr (builder', vertContext c, fragContext c))"

text \<open>Lines 400-409: the function stored for the variable \<^verbatim>\<open>varName\<close>.\<close>

definition uniformFunction ::
  "expressions \<Rightarrow> string \<Rightarrow> jsobject option \<Rightarrow> ParsingContext \<Rightarrow>
   error + (jsvalue \<times> ParsingContext)" where
  "uniformFunction X varName style_variables' vertContext' =
    (case style_variables' of
       None \<Rightarrow> Inl (MissingVariable varName)
     | Some vars \<Rightarrow>
         if property vars varName = JUndefined then Inl (MissingVariable varName)
         else
           (case property vars varName of
              JString s \<Rightarrow>
                andThen (delegated (getStringNumberEquivalent X vertContext' s))
                  (\<lambda>(value, vertContext'').
                     Inr (if value \<noteq> JUndefined then value else JNumber (- 9999999),
                          vertContext''))
            | value \<Rightarrow>
                Inr (if value \<noteq> JUndefined then value else JNumber (- 9999999),
                     vertContext')))"

text \<open>Lines 397-410: one step of the loop over \<^verbatim>\<open>fragContext.variables\<close>.\<close>

definition defineUniform ::
  "expressions \<Rightarrow> string \<Rightarrow> ShaderBuilder \<times> (string \<rightharpoonup> UniformValue) \<Rightarrow>
   ShaderBuilder \<times> (string \<rightharpoonup> UniformValue)" where
  "defineUniform X varName state =
    (let uniformName = uniformNameForVariable X varName
     in (addUniform (''float '' @ uniformName) (fst state),
         (snd state)(uniformName \<mapsto> UniformFunction (uniformFunction X varName))))"

text \<open>Lines 411-420: the texture of an image symbol.\<close>

definition imageTexture ::
  "LiteralSymbolStyle \<Rightarrow> ShaderBuilder \<times> (string \<rightharpoonup> UniformValue) \<Rightarrow>
   ShaderBuilder \<times> (string \<rightharpoonup> UniformValue)" where
  "imageTexture symbStyle state =
    (if symbolType symbStyle = JString ''image'' \<and> truthy (src symbStyle) then
       (let texture =
              \<lparr>image_crossOrigin =
                 (if crossOrigin symbStyle = JUndefined then JString ''anonymous''
                  else crossOrigin symbStyle),
               image_src = src symbStyle\<rparr>;
            builder' = addUniform ''sampler2D u_texture'' (fst state)
        in (setColorExpression
              (getColorExpression builder' @ '' * texture2D(u_texture, v_texCoord)'') builder',
            (snd state)(''u_texture'' \<mapsto> UniformTexture texture)))
     else state)"

text \<open>Lines 423-428: one step of the loop over \<^verbatim>\<open>fragContext.attributes\<close>.\<close>

definition bridgeAttribute ::
  "string \<Rightarrow> ParsingContext \<times> ShaderBuilder \<Rightarrow> ParsingContext \<times> ShaderBuilder" where
  "bridgeAttribute attrName state =
    ((if attrName \<notin> set (context_attributes (fst state))
      then (fst state)\<lparr>context_attributes := context_attributes (fst state) @ [attrName]\<rparr>
      else fst state),
     addVarying (''v_'' @ attrName) ''float'' (''a_'' @ attrName) (snd state))"

text \<open>Lines 438-444: the callback of the attribute \<^verbatim>\<open>attributeName\<close>.\<close>

definition attributeCallback ::
  "expressions \<Rightarrow> string \<Rightarrow> jsobject \<Rightarrow> ParsingContext \<Rightarrow>
   error + (jsvalue \<times> ParsingContext)" where
  "attributeCallback X attributeName props vertContext' =
    (case property props attributeName of
       JString s \<Rightarrow>
         andThen (delegated (getStringNumberEquivalent X vertContext' s))
           (\<lambda>(value, vertContext'').
              Inr (if value \<noteq> JUndefined then value else JNumber (- 9999999), vertContext''))
     | value \<Rightarrow>
         Inr (if value \<noteq> JUndefined then value else JNumber (- 9999999), vertContext'))"

text \<open>
  Lines 394-448: what follows the filter, given the builder and the contexts there.
  Nothing in this part throws.
\<close>

definition finish ::
  "expressions \<Rightarrow> LiteralSymbolStyle \<Rightarrow> ShaderBuilder \<times> ParsingContext \<times> ParsingContext \<Rightarrow>
   StyleParseResult" where
  "finish X symbStyle state =
    (let builder1 = fst state;
         vertContext1 = fst (snd state);
         fragContext1 = snd (snd state);
         with_uniforms = fold (defineUniform X) (variables fragContext1) (builder1, Map.empty);
         with_texture = imageTexture symbStyle with_uniforms;
         bridged =
           fold bridgeAttribute (context_attributes fragContext1) (vertContext1, fst with_texture);
         vertContext2 = fst bridged;
         builder2 =
           fold (\<lambda>attrName. addAttribute (''float a_'' @ attrName))
             (context_attributes vertContext2) (snd bridged)
     in \<lparr>builder = builder2,
         result_attributes =
           map (\<lambda>attributeName.
                  \<lparr>attribute_name = attributeName, callback = attributeCallback X attributeName\<rparr>)
               (context_attributes vertContext2),
         result_uniforms = snd with_texture,
         result_vertContext = vertContext2\<rparr>)"

text \<open>\<^verbatim>\<open>parseLiteralStyle\<close> (lines 330-449).\<close>

definition parseLiteralStyle :: "expressions \<Rightarrow> LiteralStyle \<Rightarrow> error + StyleParseResult" where
  "parseLiteralStyle X style =
    (let symbStyle = symbol style
     in
     andThen (compileSymbol X symbStyle) (\<lambda>c.
     andThen (opacityFilter symbStyle (visibleSize c)) (\<lambda>opacityFilter'.
     andThen (compileFilter X style c (configuredBuilder symbStyle c opacityFilter')) (\<lambda>state.
     Inr (finish X symbStyle state)))))"

subsection \<open>Reading shader text line by line\<close>

text \<open>The lines of a text: the pieces between its line breaks.\<close>

fun splitLines :: "string \<Rightarrow> string list" where
  "splitLines [] = [[]]"
| "splitLines (c # cs) =
     (if c = CHR ''\<newline>'' then [] # splitLines cs
      else (case splitLines cs of [] \<Rightarrow> [[c]] | l # ls \<Rightarrow> (c # l) # ls))"

text \<open>
  The lines of \<open>a @ b\<close> from the lines of \<open>a\<close> and of \<open>b\<close>: the last line of
  \<open>a\<close> runs on into the first line of \<open>b\<close>.
\<close>

fun glue :: "string list \<Rightarrow> string list \<Rightarrow> string list" where
  "glue [] ys = ys"
| "glue [x] [] = [x]"
| "glue [x] (y # ys) = (x @ y) # ys"
| "glue (x # x' # xs) ys = x # glue (x' # xs) ys"

text \<open>The lines of a text that start with a given keyword.\<close>

definition declarations :: "string \<Rightarrow> string \<Rightarrow> string list" where
  "declarations keyword text' =
     filter (\<lambda>l. take (length keyword) l = keyword) (splitLines text')"

subsection \<open>An instance of the external module\<close>

text \<open>
  To run the model on a concrete style the parameters need values. This instance
  compiles the few expressions the examples below use: a natural number, a boolean, an
  array of natural numbers, a string (taken as shader text), \<^verbatim>\<open>['get', name]\<close>
  (a feature attribute) and \<^verbatim>\<open>['var', name]\<close> (a style variable). It throws
  on anything else. The general theorems below hold for every instance; this one only
  serves to run the model on concrete styles.
\<close>

fun decimal :: "nat \<Rightarrow> string" where
  "decimal n =
     (if n < 10 then [''0123456789'' ! n]
      else decimal (n div 10) @ [''0123456789'' ! (n mod 10)])"

definition numberToGlsl :: "jsvalue \<Rightarrow> string option" where
  "numberToGlsl value =
     (case value of
        JNumber r \<Rightarrow>
          (if 0 \<le> r \<and> of_int \<lfloor>r\<rfloor> = r then Some (decimal (nat \<lfloor>r\<rfloor>) @ ''.0'') else None)
      | _ \<Rightarrow> None)"

definition sample_expressionToGlsl ::
  "ParsingContext \<Rightarrow> jsvalue \<Rightarrow> 32 word \<Rightarrow> string + (string \<times> ParsingContext)" where
  "sample_expressionToGlsl context value typeHint =
    (case value of
       JNumber r \<Rightarrow>
         (case numberToGlsl value of
            None \<Rightarrow> Inl ''unsupported number''
          | Some glsl \<Rightarrow> Inr (glsl, context))
     | JBoolean b \<Rightarrow> Inr (if b then ''true'' else ''false'', context)
     | JString s \<Rightarrow> Inr (s, context)
     | JArray [JString operator, JString name] \<Rightarrow>
         if operator = ''get'' then
           Inr ((if inFragmentShader context then ''v_'' else ''a_'') @ name,
                if name \<in> set (context_attributes context) then context
                else context\<lparr>context_attributes := context_attributes context @ [name]\<rparr>)
         else if operator = ''var'' then
           Inr (''u_'' @ name,
                if name \<in> set (variables context) then context
                else context\<lparr>variables := variables context @ [name]\<rparr>)
         else Inl ''unsupported operator''
     | JArray values \<Rightarrow>
         if list_all (\<lambda>v. numberToGlsl v \<noteq> None) values then
           Inr (''vec'' @ decimal (length values) @ ''('' @
                join '', '' (map (\<lambda>v. the (numberToGlsl v)) values) @ '')'', context)
         else Inl ''unsupported array''
     | _ \<Rightarrow> Inl ''unsupported expression'')"

definition sample_getStringNumberEquivalent ::
  "ParsingContext \<Rightarrow> string \<Rightarrow> string + (jsvalue \<times> ParsingContext)" where
  "sample_getStringNumberEquivalent context s =
    (case map_of (stringLiteralsMap context) s of
       Some code \<Rightarrow> Inr (code, context)
     | None \<Rightarrow>
         (let code = JNumber (of_nat (length (stringLiteralsMap context)))
          in Inr (code,
                  context\<lparr>stringLiteralsMap := stringLiteralsMap context @ [(s, code)]\<rparr>)))"

definition sample_expressions :: expressions where
  "sample_expressions =
     \<lparr>NUMBER = 1, COLOR = 4, BOOLEAN = 8, NUMBER_ARRAY = 16,
      expressionToGlsl = sample_expressionToGlsl,
      getStringNumberEquivalent = sample_getStringNumberEquivalent,
      uniformNameForVariable = (\<lambda>variableName. ''u_'' @ variableName)\<rparr>"

text \<open>A symbol style with the given shape and every other field absent, and a style around it.\<close>

definition plainSymbol :: "string \<Rightarrow> LiteralSymbolStyle" where
  "plainSymbol shape =
     \<lparr>symbolType = JString shape, symbol_size = JUndefined, color = JUndefined,
      textureCoord = JUndefined, offset = JUndefined, opacity = JUndefined,
      rotation = JUndefined, symbol_rotateWithView = JUndefined, src = JUndefined,
      crossOrigin = JUndefined\<rparr>"

definition styleOf :: "LiteralSymbolStyle \<Rightarrow> LiteralStyle" where
  "styleOf symbStyle =
     \<lparr>symbol = symbStyle, style_filter = JUndefined, style_variables = None\<rparr>"

section \<open>Properties\<close>

subsection \<open>Auxiliary facts\<close>

declare decimal.simps [simp del]

lemmas model_defs =
  parseLiteralStyle_def compileSymbol_def opacityFilter_def configuredBuilder_def
  compileFilter_def finish_def defineUniform_def imageTexture_def bridgeAttribute_def
  andThen_def delegated_def shareWith_def
  size_or_default_def color_or_default_def texCoord_or_default_def offset_or_default_def
  opacity_or_default_def rotation_or_default_def
  new_ShaderBuilder_def addUniform_def addAttribute_def addVarying_def
  setSizeExpression_def setRotationExpression_def setSymbolOffsetExpression_def
  setColorExpression_def setTextureCoordinateExpression_def setFragmentDiscardExpression_def
  setSymbolRotateWithView_def getColorExpression_def

lemmas sample_defs =
  sample_expressions_def sample_expressionToGlsl_def sample_getStringNumberEquivalent_def
  numberToGlsl_def decimal.simps plainSymbol_def styleOf_def

lemma splitLines_not_Nil [simp]: "splitLines xs \<noteq> []"
  by (induction xs) (auto split: list.splits)

lemma splitLines_append: "splitLines (a @ b) = glue (splitLines a) (splitLines b)"
proof (induction a)
  case Nil
  then show ?case by (cases "splitLines b") auto
next
  case (Cons c a)
  obtain l ls where a: "splitLines a = l # ls" by (cases "splitLines a") auto
  obtain m ms where ab: "splitLines (a @ b) = m # ms" by (cases "splitLines (a @ b)") auto
  obtain k ks where b: "splitLines b = k # ks" by (cases "splitLines b") auto
  show ?case
  proof (cases "c = CHR ''\<newline>''")
    case True
    with Cons a show ?thesis by simp
  next
    case False
    with Cons a ab b show ?thesis by (cases ls) auto
  qed
qed

lemma fold_defineUniform_Cons:
  "fold (defineUniform X) (a # vs) (b, m) =
     fold (defineUniform X) vs
       (addUniform (''float '' @ uniformNameForVariable X a) b,
        m(uniformNameForVariable X a \<mapsto> UniformFunction (uniformFunction X a)))"
  by (simp add: defineUniform_def Let_def)

lemma fold_defineUniform_fst:
  "fst (fold (defineUniform X) vs (b, m)) =
     b\<lparr>uniforms := uniforms b @ map (\<lambda>v. ''float '' @ uniformNameForVariable X v) vs\<rparr>"
proof (induction vs arbitrary: b m)
  case Nil
  show ?case by simp
next
  case (Cons a vs)
  show ?case unfolding fold_defineUniform_Cons Cons.IH by (simp add: addUniform_def)
qed

lemma fold_defineUniform_other:
  "k \<notin> uniformNameForVariable X ` set vs \<Longrightarrow> snd (fold (defineUniform X) vs (b, m)) k = m k"
proof (induction vs arbitrary: b m)
  case Nil
  show ?case by simp
next
  case (Cons a vs)
  from Cons.prems have 1: "k \<notin> uniformNameForVariable X ` set vs" and 2: "k \<noteq> uniformNameForVariable X a"
    by auto
  show ?case unfolding fold_defineUniform_Cons Cons.IH [OF 1] using 2 by simp
qed

lemma fold_defineUniform_snd:
  "k \<in> uniformNameForVariable X ` set vs \<Longrightarrow>
   \<exists>v' \<in> set vs. uniformNameForVariable X v' = k \<and>
     snd (fold (defineUniform X) vs (b, m)) k = Some (UniformFunction (uniformFunction X v'))"
proof (induction vs arbitrary: b m)
  case Nil
  then show ?case by simp
next
  case (Cons a vs)
  let ?b = "addUniform (''float '' @ uniformNameForVariable X a) b"
  let ?m = "m(uniformNameForVariable X a \<mapsto> UniformFunction (uniformFunction X a))"
  show ?case
  proof (cases "k \<in> uniformNameForVariable X ` set vs")
    case True
    from Cons.IH [OF True, of ?b ?m]
    obtain v' where "v' \<in> set vs" "uniformNameForVariable X v' = k"
      "snd (fold (defineUniform X) vs (?b, ?m)) k = Some (UniformFunction (uniformFunction X v'))"
      by blast
    then show ?thesis unfolding fold_defineUniform_Cons by (intro bexI [of _ v']) simp_all
  next
    case False
    with Cons.prems have ka: "k = uniformNameForVariable X a" by auto
    have "snd (fold (defineUniform X) vs (?b, ?m)) k = ?m k"
      by (rule fold_defineUniform_other [OF False])
    then show ?thesis unfolding fold_defineUniform_Cons using ka by simp
  qed
qed

lemma fold_defineUniform_no_texture:
  "(\<And>k img. m k \<noteq> Some (UniformTexture img)) \<Longrightarrow>
   snd (fold (defineUniform X) vs (b, m)) k \<noteq> Some (UniformTexture img)"
proof (induction vs arbitrary: b m)
  case Nil
  then show ?case by simp
next
  case (Cons a vs)
  show ?case unfolding fold_defineUniform_Cons
    by (rule Cons.IH) (simp add: Cons.prems)
qed


lemma fold_bridgeAttribute_Cons:
  "fold bridgeAttribute (a # as) (vc, b) =
     fold bridgeAttribute as
       (if a \<notin> set (context_attributes vc)
        then vc\<lparr>context_attributes := context_attributes vc @ [a]\<rparr> else vc,
        addVarying (''v_'' @ a) ''float'' (''a_'' @ a) b)"
  by (simp add: bridgeAttribute_def)

lemma fold_bridgeAttribute_snd:
  "snd (fold bridgeAttribute as (vc, b)) =
     b\<lparr>varyings := varyings b @
       map (\<lambda>n. \<lparr>varying_name = ''v_'' @ n, varying_type = ''float'',
                   varying_expression = ''a_'' @ n\<rparr>) as\<rparr>"
proof (induction as arbitrary: vc b)
  case Nil
  show ?case by simp
next
  case (Cons a as)
  show ?case unfolding fold_bridgeAttribute_Cons Cons.IH
    by (simp add: addVarying_def)
qed

lemma fold_bridgeAttribute_fst:
  "\<exists>new. fst (fold bridgeAttribute as (vc, b)) =
            vc\<lparr>context_attributes := context_attributes vc @ new\<rparr> \<and>
          set new = set as - set (context_attributes vc) \<and> distinct new"
proof (induction as arbitrary: vc b)
  case Nil
  show ?case by (rule exI [of _ "[]"]) simp
next
  case (Cons a as)
  let ?b = "addVarying (''v_'' @ a) ''float'' (''a_'' @ a) b"
  show ?case
  proof (cases "a \<in> set (context_attributes vc)")
    case True
    from Cons [of vc ?b] obtain new where new:
      "fst (fold bridgeAttribute as (vc, ?b)) = vc\<lparr>context_attributes := context_attributes vc @ new\<rparr>"
      "set new = set as - set (context_attributes vc)" "distinct new"
      by blast
    have "set new = set (a # as) - set (context_attributes vc)"
      using new(2) True by auto
    with new(1,3) True show ?thesis unfolding fold_bridgeAttribute_Cons by auto
  next
    case False
    let ?vc = "vc\<lparr>context_attributes := context_attributes vc @ [a]\<rparr>"
    from Cons [of ?vc ?b]
    obtain new where new:
      "fst (fold bridgeAttribute as (?vc, ?b)) =
         ?vc\<lparr>context_attributes := context_attributes ?vc @ new\<rparr>"
      "set new = set as - set (context_attributes ?vc)" "distinct new"
      by blast
    have 1: "fst (fold bridgeAttribute (a # as) (vc, b)) =
               vc\<lparr>context_attributes := context_attributes vc @ (a # new)\<rparr>"
      unfolding fold_bridgeAttribute_Cons using False new(1) by simp
    have 2: "set (a # new) = set (a # as) - set (context_attributes vc)"
      using new(2) False by auto
    have 3: "distinct (a # new)" using new(2,3) by auto
    from 1 2 3 show ?thesis by blast
  qed
qed

lemma fold_addAttribute:
  "fold (\<lambda>attrName. addAttribute (''float a_'' @ attrName)) ns b =
     b\<lparr>attributes := attributes b @ map (\<lambda>n. ''float a_'' @ n) ns\<rparr>"
  by (induction ns arbitrary: b) (simp_all add: addAttribute_def)


lemma andThen_Inr:
  "andThen r k = Inr y \<longleftrightarrow> (\<exists>x. r = Inr x \<and> k x = Inr y)"
  by (cases r) (simp_all add: andThen_def)

lemma delegated_Inr: "delegated r = Inr x \<longleftrightarrow> r = Inr x"
  by (cases r) (simp_all add: delegated_def)

lemma parseLiteralStyle_Inr:
  "parseLiteralStyle X style = Inr result \<longleftrightarrow>
     (\<exists>c shapeMask state.
        compileSymbol X (symbol style) = Inr c \<and>
        opacityFilter (symbol style) (visibleSize c) = Inr shapeMask \<and>
        compileFilter X style c (configuredBuilder (symbol style) c shapeMask) = Inr state \<and>
        result = finish X (symbol style) state)"
  by (auto simp: parseLiteralStyle_def Let_def andThen_Inr)

lemma compileFilter_Inr:
  "compileFilter X style c b = Inr state \<longleftrightarrow>
     (if truthy (style_filter style) then
        \<exists>parsedFilter fc.
          expressionToGlsl X (fragContext c) (style_filter style) (BOOLEAN X) = Inr (parsedFilter, fc) \<and>
          state = (setFragmentDiscardExpression (''!'' @ parsedFilter) b,
                   shareWith fc (vertContext c), fc)
      else state = (b, vertContext c, fragContext c))"
  by (auto simp: compileFilter_def andThen_Inr delegated_Inr)

lemma compileSymbol_color:
  assumes "compileSymbol X symbStyle = Inr c"
  shows "\<exists>fc fc' fc''.
           inFragmentShader fc \<and>
           expressionToGlsl X fc (color_or_default symbStyle) (COLOR X) = Inr (parsedColor c, fc') \<and>
           expressionToGlsl X fc' (opacity_or_default symbStyle) (NUMBER X) =
             Inr (parsedOpacity c, fc'')"
  using assms
  apply (clarsimp simp: compileSymbol_def Let_def andThen_Inr delegated_Inr)
  apply (intro exI conjI)
    prefer 2 apply assumption
   prefer 2 apply assumption
  apply simp
  done

lemma finish_builder:
  "builder (finish X symbStyle (b, vc, fc)) =
     b\<lparr>uniforms :=
         uniforms b @ map (\<lambda>v. ''float '' @ uniformNameForVariable X v) (variables fc) @
         (if symbolType symbStyle = JString ''image'' \<and> truthy (src symbStyle)
          then [''sampler2D u_texture''] else []),
       attributes :=
         attributes b @
         map (\<lambda>n. ''float a_'' @ n)
           (context_attributes (result_vertContext (finish X symbStyle (b, vc, fc)))),
       varyings :=
         varyings b @
         map (\<lambda>n. \<lparr>varying_name = ''v_'' @ n, varying_type = ''float'',
                     varying_expression = ''a_'' @ n\<rparr>) (context_attributes fc),
       colorExpression :=
         colorExpression b @
         (if symbolType symbStyle = JString ''image'' \<and> truthy (src symbStyle)
          then '' * texture2D(u_texture, v_texCoord)'' else [])\<rparr>"
  unfolding finish_def Let_def fst_conv snd_conv fold_addAttribute fold_bridgeAttribute_snd
  by (simp add: imageTexture_def fold_defineUniform_fst addUniform_def setColorExpression_def
      getColorExpression_def)

lemma finish_vertContext:
  "\<exists>new. result_vertContext (finish X symbStyle (b, vc, fc)) =
            vc\<lparr>context_attributes := context_attributes vc @ new\<rparr> \<and>
          set new = set (context_attributes fc) - set (context_attributes vc) \<and> distinct new"
  unfolding finish_def Let_def by (simp add: fold_bridgeAttribute_fst)

lemma finish_attributes:
  "result_attributes (finish X symbStyle state) =
     map (\<lambda>attributeName.
            \<lparr>attribute_name = attributeName, callback = attributeCallback X attributeName\<rparr>)
       (context_attributes (result_vertContext (finish X symbStyle state)))"
  by (simp add: finish_def Let_def)

lemma compileFilter_symbolType:
  "compileFilter X (style\<lparr>symbol := s\<rparr>) c b = compileFilter X style c b"
  by (simp add: compileFilter_def)

lemma falsy_values:
  "\<not> truthy v \<longleftrightarrow>
     v \<in> {JUndefined, JNull, JBoolean False, JNumber 0, JNaN, JString []}"
  by (cases v) auto

lemma compileSymbol_shared:
  assumes "compileSymbol X symbStyle = Inr c"
  shows "variables (vertContext c) = variables (fragContext c) \<and>
         stringLiteralsMap (vertContext c) = stringLiteralsMap (fragContext c)"
  using assms
  by (auto simp: compileSymbol_def Let_def andThen_Inr delegated_Inr shareWith_def)

lemma compileFilter_state:
  assumes "compileSymbol X (symbol style) = Inr c"
    and "compileFilter X style c (configuredBuilder (symbol style) c shapeMask) = Inr (b, vc, fc)"
  shows "uniforms b = [] \<and> attributes b = [] \<and> varyings b = [] \<and>
         variables vc = variables fc \<and> stringLiteralsMap vc = stringLiteralsMap fc"
proof -
  have l: "uniforms (configuredBuilder (symbol style) c shapeMask) = [] \<and>
           attributes (configuredBuilder (symbol style) c shapeMask) = [] \<and>
           varyings (configuredBuilder (symbol style) c shapeMask) = []"
    by (simp add: configuredBuilder_def new_ShaderBuilder_def setColorExpression_def
        setSymbolRotateWithView_def setTextureCoordinateExpression_def
        setSymbolOffsetExpression_def setRotationExpression_def setSizeExpression_def)
  show ?thesis
  proof (cases "truthy (style_filter style)")
    case True
    with assms(2) obtain parsedFilter where
      "b = setFragmentDiscardExpression (''!'' @ parsedFilter)
             (configuredBuilder (symbol style) c shapeMask)"
      "vc = shareWith fc (vertContext c)"
      unfolding compileFilter_Inr by auto
    with l show ?thesis by (simp add: setFragmentDiscardExpression_def shareWith_def)
  next
    case False
    with assms(2) have "b = configuredBuilder (symbol style) c shapeMask"
      "vc = vertContext c" "fc = fragContext c"
      unfolding compileFilter_Inr by auto
    with l compileSymbol_shared [OF assms(1)] show ?thesis by simp
  qed
qed

lemma attributeCallback_cases:
  "(property props name = JUndefined \<longrightarrow>
      attributeCallback X name props ctx = Inr (JNumber (- 9999999), ctx)) \<and>
   (\<forall>s. property props name = JString s \<longrightarrow>
      attributeCallback X name props ctx =
        (case getStringNumberEquivalent X ctx s of
           Inl message \<Rightarrow> Inl (ExpressionError message)
         | Inr (value, ctx') \<Rightarrow>
             Inr (if value = JUndefined then JNumber (- 9999999) else value, ctx'))) \<and>
   (property props name \<noteq> JUndefined \<longrightarrow> (\<forall>s. property props name \<noteq> JString s) \<longrightarrow>
      attributeCallback X name props ctx = Inr (property props name, ctx))"
  by (cases "property props name")
     (auto simp: attributeCallback_def andThen_def delegated_def split: sum.splits)

lemma uniformFunction_cases:
  "uniformFunction X varName None ctx = Inl (MissingVariable varName) \<and>
   (property vars varName = JUndefined \<longrightarrow>
      uniformFunction X varName (Some vars) ctx = Inl (MissingVariable varName)) \<and>
   (\<forall>s. property vars varName = JString s \<longrightarrow>
      uniformFunction X varName (Some vars) ctx =
        (case getStringNumberEquivalent X ctx s of
           Inl message \<Rightarrow> Inl (ExpressionError message)
         | Inr (value, ctx') \<Rightarrow>
             Inr (if value = JUndefined then JNumber (- 9999999) else value, ctx'))) \<and>
   (property vars varName \<noteq> JUndefined \<longrightarrow> (\<forall>s. property vars varName \<noteq> JString s) \<longrightarrow>
      uniformFunction X varName (Some vars) ctx = Inr (property vars varName, ctx))"
  by (cases "property vars varName")
     (auto simp: uniformFunction_def andThen_def delegated_def split: sum.splits)

lemma finish_uniforms:
  "result_uniforms (finish X symbStyle (b, vc, fc)) k =
     (if symbolType symbStyle = JString ''image'' \<and> truthy (src symbStyle) \<and> k = ''u_texture''
      then Some (UniformTexture
             \<lparr>image_crossOrigin =
                (if crossOrigin symbStyle = JUndefined then JString ''anonymous''
                 else crossOrigin symbStyle),
              image_src = src symbStyle\<rparr>)
      else snd (fold (defineUniform X) (variables fc) (b, Map.empty)) k)"
  by (simp add: finish_def Let_def imageTexture_def)

lemma store_vertex_text:
  assumes "wellFormed s this"
  shows "fst (store_getSymbolVertexShader h this s) =
           fst (getSymbolVertexShader h (builderState s this))"
  using assms
  by (cases h)
     (simp_all add: store_getSymbolVertexShader_def getSymbolVertexShader_def vertexTemplate_def
        builderState_def wellFormed_def concatString_def concatVarying_def Let_def nth_append)

lemma store_fragment_text:
  assumes "wellFormed s this"
  shows "fst (store_getSymbolFragmentShader h this s) =
           fst (getSymbolFragmentShader h (builderState s this))"
  using assms
  by (cases h)
     (simp_all add: store_getSymbolFragmentShader_def getSymbolFragmentShader_def
        fragmentTemplate_def builderState_def wellFormed_def concatVarying_def Let_def nth_append)

lemma store_vertex_frame:
  "builders (snd (store_getSymbolVertexShader h this s)) = builders s \<and>
   take (length (stringArrays s)) (stringArrays (snd (store_getSymbolVertexShader h this s))) =
     stringArrays s \<and>
   take (length (varyingArrays s)) (varyingArrays (snd (store_getSymbolVertexShader h this s))) =
     varyingArrays s"
  by (cases h)
     (simp_all add: store_getSymbolVertexShader_def concatString_def concatVarying_def Let_def)

lemma store_fragment_frame:
  "builders (snd (store_getSymbolFragmentShader h this s)) = builders s \<and>
   take (length (stringArrays s)) (stringArrays (snd (store_getSymbolFragmentShader h this s))) =
     stringArrays s \<and>
   take (length (varyingArrays s)) (varyingArrays (snd (store_getSymbolFragmentShader h this s))) =
     varyingArrays s"
  by (cases h)
     (simp_all add: store_getSymbolFragmentShader_def concatVarying_def Let_def)

lemma frame_builderState:
  assumes "wellFormed s this"
    and "builders s' = builders s"
    and "take (length (stringArrays s)) (stringArrays s') = stringArrays s"
    and "take (length (varyingArrays s)) (varyingArrays s') = varyingArrays s"
  shows "builderState s' this = builderState s this \<and> wellFormed s' this"
proof -
  have n: "take n xs = ys \<Longrightarrow> i < length ys \<Longrightarrow> xs ! i = ys ! i" for n i and xs ys :: "'a list"
    by (metis nth_take length_take min_less_iff_conj)
  have l: "take (length ys) xs = ys \<Longrightarrow> length ys \<le> length xs" for xs ys :: "'a list"
    by (metis length_take min.cobounded1 min.commute)
  from assms(1) have w:
    "this < length (builders s)"
    "this_uniforms (builders s ! this) < length (stringArrays s)"
    "this_attributes (builders s ! this) < length (stringArrays s)"
    "this_varyings (builders s ! this) < length (varyingArrays s)"
    by (simp_all add: wellFormed_def)
  have 1: "stringArrays s' ! this_uniforms (builders s ! this) =
           stringArrays s ! this_uniforms (builders s ! this)"
    by (rule n [OF assms(3) w(2)])
  have 2: "stringArrays s' ! this_attributes (builders s ! this) =
           stringArrays s ! this_attributes (builders s ! this)"
    by (rule n [OF assms(3) w(3)])
  have 3: "varyingArrays s' ! this_varyings (builders s ! this) =
           varyingArrays s ! this_varyings (builders s ! this)"
    by (rule n [OF assms(4) w(4)])
  have 4: "builderState s' this = builderState s this"
    by (simp add: builderState_def assms(2) 1 2 3)
  have 5: "wellFormed s' this"
    using w l [OF assms(3)] l [OF assms(4)] by (simp add: wellFormed_def assms(2))
  from 4 5 show ?thesis ..
qed

lemma defaults_explicit:
  "size_or_default s = (if symbol_size s = JUndefined then JNumber 1 else symbol_size s)"
  "opacity_or_default s = (if opacity s = JUndefined then JNumber 1 else opacity s)"
  "rotation_or_default s = (if rotation s = JUndefined then JNumber 0 else rotation s)"
  "color_or_default s =
     (if color s \<in> {JUndefined, JNull, JBoolean False, JNumber 0, JNaN, JString []}
      then JString ''white'' else color s)"
  "texCoord_or_default s =
     (if textureCoord s \<in> {JUndefined, JNull, JBoolean False, JNumber 0, JNaN, JString []}
      then JArray [JNumber 0, JNumber 0, JNumber 1, JNumber 1] else textureCoord s)"
  "offset_or_default s =
     (if offset s \<in> {JUndefined, JNull, JBoolean False, JNumber 0, JNaN, JString []}
      then JArray [JNumber 0, JNumber 0] else offset s)"
proof -
  show "size_or_default s = (if symbol_size s = JUndefined then JNumber 1 else symbol_size s)"
    by (simp add: size_or_default_def)
  show "opacity_or_default s = (if opacity s = JUndefined then JNumber 1 else opacity s)"
    by (simp add: opacity_or_default_def)
  show "rotation_or_default s = (if rotation s = JUndefined then JNumber 0 else rotation s)"
    by (simp add: rotation_or_default_def)
  show "color_or_default s =
     (if color s \<in> {JUndefined, JNull, JBoolean False, JNumber 0, JNaN, JString []}
      then JString ''white'' else color s)"
    unfolding color_or_default_def falsy_values [symmetric] by simp
  show "texCoord_or_default s =
     (if textureCoord s \<in> {JUndefined, JNull, JBoolean False, JNumber 0, JNaN, JString []}
      then JArray [JNumber 0, JNumber 0, JNumber 1, JNumber 1] else textureCoord s)"
    unfolding texCoord_or_default_def falsy_values [symmetric] by simp
  show "offset_or_default s =
     (if offset s \<in> {JUndefined, JNull, JBoolean False, JNumber 0, JNaN, JString []}
      then JArray [JNumber 0, JNumber 0] else offset s)"
    unfolding offset_or_default_def falsy_values [symmetric] by simp
qed

lemma compileSymbol_calls:
  assumes "compileSymbol X s = Inr c"
  shows "\<exists>vc1 vc2 vc3 vc4 fc1 fc2 fragSize fc3.
           expressionToGlsl X
             \<lparr>inFragmentShader = False, variables = [], context_attributes = [],
              stringLiteralsMap = [], context_functions = []\<rparr>
             (size_or_default s) (NUMBER_ARRAY X OR NUMBER X) = Inr (parsedSize c, vc1) \<and>
           expressionToGlsl X vc1 (offset_or_default s) (NUMBER_ARRAY X) =
             Inr (parsedOffset c, vc2) \<and>
           expressionToGlsl X vc2 (texCoord_or_default s) (NUMBER_ARRAY X) =
             Inr (parsedTexCoord c, vc3) \<and>
           expressionToGlsl X vc3 (rotation_or_default s) (NUMBER X) =
             Inr (parsedRotation c, vc4) \<and>
           expressionToGlsl X
             \<lparr>inFragmentShader = True, variables = variables vc4, context_attributes = [],
              stringLiteralsMap = stringLiteralsMap vc4, context_functions = []\<rparr>
             (color_or_default s) (COLOR X) = Inr (parsedColor c, fc1) \<and>
           expressionToGlsl X fc1 (opacity_or_default s) (NUMBER X) =
             Inr (parsedOpacity c, fc2) \<and>
           expressionToGlsl X fc2 (size_or_default s) (NUMBER_ARRAY X OR NUMBER X) =
             Inr (fragSize, fc3) \<and>
           visibleSize c = ''vec2('' @ fragSize @ '').x''"
  using assms
  by (clarsimp simp: compileSymbol_def Let_def andThen_Inr delegated_Inr)

lemma finish_slots:
  "sizeExpression (builder (finish X symbStyle (b, vc, fc))) = sizeExpression b \<and>
   rotationExpression (builder (finish X symbStyle (b, vc, fc))) = rotationExpression b \<and>
   offsetExpression (builder (finish X symbStyle (b, vc, fc))) = offsetExpression b \<and>
   texCoordExpression (builder (finish X symbStyle (b, vc, fc))) = texCoordExpression b"
  unfolding finish_builder by simp

subsection \<open>The shader generators\<close>

text \<open>
  Claim C9. On the store, a call of \<^verbatim>\<open>getSymbolVertexShader\<close> or of
  \<^verbatim>\<open>getSymbolFragmentShader\<close>, with or without hit detection, writes to no object
  that was there: the builders are as they were and every array that was in the store
  holds what it held, so the builder has the same uniforms, attributes, varyings and
  expression slots after the call (all the call may add is new arrays, which
  \<^verbatim>\<open>concat\<close> creates). A second call with the same argument, in the store the
  first call left, returns the same text, and the text is the one that the generator of
  the sections above gives for what the builder holds.
\<close>

theorem shader_getters_pure:
  assumes "wellFormed s this"
  shows "builders (snd (store_getSymbolVertexShader forHitDetection this s)) = builders s \<and>
         take (length (stringArrays s))
           (stringArrays (snd (store_getSymbolVertexShader forHitDetection this s))) =
           stringArrays s \<and>
         take (length (varyingArrays s))
           (varyingArrays (snd (store_getSymbolVertexShader forHitDetection this s))) =
           varyingArrays s \<and>
         builderState (snd (store_getSymbolVertexShader forHitDetection this s)) this =
           builderState s this \<and>
         builders (snd (store_getSymbolFragmentShader forHitDetection this s)) = builders s \<and>
         take (length (stringArrays s))
           (stringArrays (snd (store_getSymbolFragmentShader forHitDetection this s))) =
           stringArrays s \<and>
         take (length (varyingArrays s))
           (varyingArrays (snd (store_getSymbolFragmentShader forHitDetection this s))) =
           varyingArrays s \<and>
         builderState (snd (store_getSymbolFragmentShader forHitDetection this s)) this =
           builderState s this \<and>
         fst (store_getSymbolVertexShader forHitDetection this
                (snd (store_getSymbolVertexShader forHitDetection this s))) =
           fst (store_getSymbolVertexShader forHitDetection this s) \<and>
         fst (store_getSymbolFragmentShader forHitDetection this
                (snd (store_getSymbolFragmentShader forHitDetection this s))) =
           fst (store_getSymbolFragmentShader forHitDetection this s) \<and>
         fst (store_getSymbolVertexShader forHitDetection this s) =
           fst (getSymbolVertexShader forHitDetection (builderState s this)) \<and>
         fst (store_getSymbolFragmentShader forHitDetection this s) =
           fst (getSymbolFragmentShader forHitDetection (builderState s this))"
proof -
  let ?v = "snd (store_getSymbolVertexShader forHitDetection this s)"
  let ?f = "snd (store_getSymbolFragmentShader forHitDetection this s)"
  note fv = store_vertex_frame [of forHitDetection this s]
  note ff = store_fragment_frame [of forHitDetection this s]
  from fv have fv1: "builders ?v = builders s"
    and fv2: "take (length (stringArrays s)) (stringArrays ?v) = stringArrays s"
    and fv3: "take (length (varyingArrays s)) (varyingArrays ?v) = varyingArrays s"
    by simp_all
  from ff have ff1: "builders ?f = builders s"
    and ff2: "take (length (stringArrays s)) (stringArrays ?f) = stringArrays s"
    and ff3: "take (length (varyingArrays s)) (varyingArrays ?f) = varyingArrays s"
    by simp_all
  from frame_builderState [OF assms fv1 fv2 fv3]
  have bv: "builderState ?v this = builderState s this" and wv: "wellFormed ?v this"
    by simp_all
  from frame_builderState [OF assms ff1 ff2 ff3]
  have bf: "builderState ?f this = builderState s this" and wf: "wellFormed ?f this"
    by simp_all
  have tv: "fst (store_getSymbolVertexShader forHitDetection this s) =
              fst (getSymbolVertexShader forHitDetection (builderState s this))"
    by (rule store_vertex_text [OF assms])
  have tf: "fst (store_getSymbolFragmentShader forHitDetection this s) =
              fst (getSymbolFragmentShader forHitDetection (builderState s this))"
    by (rule store_fragment_text [OF assms])
  have rv: "fst (store_getSymbolVertexShader forHitDetection this ?v) =
              fst (store_getSymbolVertexShader forHitDetection this s)"
    unfolding store_vertex_text [OF wv] bv tv ..
  have rf: "fst (store_getSymbolFragmentShader forHitDetection this ?f) =
              fst (store_getSymbolFragmentShader forHitDetection this s)"
    unfolding store_fragment_text [OF wf] bf tf ..
  from fv1 fv2 fv3 bv ff1 ff2 ff3 bf rv rf tv tf show ?thesis by (intro conjI)
qed

text \<open>
  Claim C9 at a new builder with one attribute added: after a call for hit detection the
  store has a third array of strings, the builder still has the one attribute, and a
  second call returns the same text.
\<close>

theorem shader_getters_pure_witness:
  "wellFormed
     (store_addAttribute ''float a_size'' 0
        (snd (store_new_ShaderBuilder \<lparr>stringArrays = [], varyingArrays = [], builders = []\<rparr>))) 0 \<and>
   attributes (builderState
     (snd (store_getSymbolVertexShader True 0
        (store_addAttribute ''float a_size'' 0
           (snd (store_new_ShaderBuilder \<lparr>stringArrays = [], varyingArrays = [], builders = []\<rparr>)))))
     0) = [''float a_size''] \<and>
   length (stringArrays
     (snd (store_getSymbolVertexShader True 0
        (store_addAttribute ''float a_size'' 0
           (snd (store_new_ShaderBuilder \<lparr>stringArrays = [], varyingArrays = [], builders = []\<rparr>)))))) = 3 \<and>
   fst (store_getSymbolVertexShader True 0
          (snd (store_getSymbolVertexShader True 0
             (store_addAttribute ''float a_size'' 0
                (snd (store_new_ShaderBuilder
                   \<lparr>stringArrays = [], varyingArrays = [], builders = []\<rparr>)))))) =
     fst (store_getSymbolVertexShader True 0
            (store_addAttribute ''float a_size'' 0
               (snd (store_new_ShaderBuilder
                  \<lparr>stringArrays = [], varyingArrays = [], builders = []\<rparr>))))"
proof -
  let ?s = "store_addAttribute ''float a_size'' 0
        (snd (store_new_ShaderBuilder \<lparr>stringArrays = [], varyingArrays = [], builders = []\<rparr>))"
  have s: "?s = \<lparr>stringArrays = [[], [''float a_size'']], varyingArrays = [[]],
             builders = [\<lparr>this_uniforms = 0, this_attributes = 1, this_varyings = 0,
               this_sizeExpression = ''vec2(1.0)'',
               this_rotationExpression = ''0.0'',
               this_offsetExpression = ''vec2(0.0)'',
               this_colorExpression = ''vec4(1.0)'',
               this_texCoordExpression = ''vec4(0.0, 0.0, 1.0, 1.0)'',
               this_discardExpression = ''false'',
               this_rotateWithView = False\<rparr>]\<rparr>"
    by (simp add: store_addAttribute_def store_new_ShaderBuilder_def pushString_def)
  have w: "wellFormed ?s 0" unfolding s by (simp add: wellFormed_def)
  have a: "attributes (builderState ?s 0) = [''float a_size'']"
    unfolding s by (simp add: builderState_def)
  have l: "length (stringArrays (snd (store_getSymbolVertexShader True 0 ?s))) = 3"
    unfolding s by (simp add: store_getSymbolVertexShader_def concatString_def concatVarying_def Let_def)
  note p = shader_getters_pure [OF w, of True]
  from p have "builderState (snd (store_getSymbolVertexShader True 0 ?s)) 0 = builderState ?s 0"
    by blast
  with a have 1: "attributes (builderState (snd (store_getSymbolVertexShader True 0 ?s)) 0) =
                    [''float a_size'']" by simp
  from p have 2: "fst (store_getSymbolVertexShader True 0
                    (snd (store_getSymbolVertexShader True 0 ?s))) =
                  fst (store_getSymbolVertexShader True 0 ?s)"
    by blast
  from w 1 l 2 show ?thesis by (intro conjI)
qed

text \<open>
  Claim C4, as the code has it. The shaders for hit detection are the shaders without
  hit detection of the same builder with the attribute \<^verbatim>\<open>vec4 a_hitColor\<close> and the
  varying \<^verbatim>\<open>v_hitColor\<close> (a \<^verbatim>\<open>vec4\<close> assigned from \<^verbatim>\<open>a_hitColor\<close>)
  appended to its lists, except for one line of the fragment shader: the line after
  \<^verbatim>\<open>gl_FragColor.rgb *= gl_FragColor.a;\<close>, empty without hit detection, holds the
  two statements of the colour override. All other text is the same.
\<close>

theorem hit_detection_shaders:
  "fst (getSymbolVertexShader True this) =
     fst (getSymbolVertexShader False
       (addVarying ''v_hitColor'' ''vec4'' ''a_hitColor'' (addAttribute ''vec4 a_hitColor'' this)))
   \<and> (\<exists>before.
        fst (getSymbolFragmentShader False
          (addVarying ''v_hitColor'' ''vec4'' ''a_hitColor'' (addAttribute ''vec4 a_hitColor'' this))) =
          before @ ''  gl_FragColor.rgb *= gl_FragColor.a;\<newline>'' @ ''\<newline>}'' \<and>
        fst (getSymbolFragmentShader True this) =
          before @ ''  gl_FragColor.rgb *= gl_FragColor.a;\<newline>'' @
          ''  if (gl_FragColor.a < 0.1) { discard; } gl_FragColor = v_hitColor;'' @ ''\<newline>}'')"
proof
  show "fst (getSymbolVertexShader True this) =
     fst (getSymbolVertexShader False
       (addVarying ''v_hitColor'' ''vec4'' ''a_hitColor'' (addAttribute ''vec4 a_hitColor'' this)))"
    by (simp add: getSymbolVertexShader_def addVarying_def addAttribute_def hitColorVarying_def Let_def)
next
  let ?b = "addVarying ''v_hitColor'' ''vec4'' ''a_hitColor'' (addAttribute ''vec4 a_hitColor'' this)"
  let ?before = "''precision mediump float;\<newline>'' @
      ''uniform float u_time;\<newline>'' @
      ''uniform float u_zoom;\<newline>'' @
      ''uniform float u_resolution;\<newline>'' @
      join ''\<newline>'' (map uniformLine (uniforms this)) @
      ''\<newline>'' @
      ''varying vec2 v_texCoord;\<newline>'' @
      ''varying vec2 v_quadCoord;\<newline>'' @
      join ''\<newline>'' (map varyingLine (varyings this @ [hitColorVarying])) @
      ''\<newline>'' @
      ''void main(void) {\<newline>'' @
      ''  if ('' @
      discardExpression this @
      '') { discard; }\<newline>'' @
      ''  gl_FragColor = '' @
      colorExpression this @
      '';\<newline>''"
  have 1: "fst (getSymbolFragmentShader False ?b) =
          ?before @ ''  gl_FragColor.rgb *= gl_FragColor.a;\<newline>'' @ ''\<newline>}''"
    by (simp add: getSymbolFragmentShader_def addVarying_def addAttribute_def hitColorVarying_def Let_def)
  have 2: "fst (getSymbolFragmentShader True this) =
          ?before @ ''  gl_FragColor.rgb *= gl_FragColor.a;\<newline>'' @
          ''  if (gl_FragColor.a < 0.1) { discard; } gl_FragColor = v_hitColor;'' @ ''\<newline>}''"
    by (simp add: getSymbolFragmentShader_def Let_def)
  show "\<exists>before.
        fst (getSymbolFragmentShader False ?b) =
          before @ ''  gl_FragColor.rgb *= gl_FragColor.a;\<newline>'' @ ''\<newline>}'' \<and>
        fst (getSymbolFragmentShader True this) =
          before @ ''  gl_FragColor.rgb *= gl_FragColor.a;\<newline>'' @
          ''  if (gl_FragColor.a < 0.1) { discard; } gl_FragColor = v_hitColor;'' @ ''\<newline>}''"
    by (rule exI [of _ ?before]) (simp only: 1 2 simp_thms)
qed

text \<open>
  Claim C4, as stated, fails for a new builder: the fragment shader for hit detection has
  as many lines as the one without. The varying takes the place of an empty line, and the
  colour override is one line in the place of another empty line, not two lines added.
\<close>

theorem hit_detection_counterexample:
  "splitLines (fst (getSymbolFragmentShader False new_ShaderBuilder)) =
     [''precision mediump float;'', ''uniform float u_time;'',
      ''uniform float u_zoom;'', ''uniform float u_resolution;'', [],
      ''varying vec2 v_texCoord;'', ''varying vec2 v_quadCoord;'', [],
      ''void main(void) {'', ''  if (false) { discard; }'',
      ''  gl_FragColor = vec4(1.0);'',
      ''  gl_FragColor.rgb *= gl_FragColor.a;'', [], ''}''] \<and>
   splitLines (fst (getSymbolFragmentShader True new_ShaderBuilder)) =
     [''precision mediump float;'', ''uniform float u_time;'',
      ''uniform float u_zoom;'', ''uniform float u_resolution;'', [],
      ''varying vec2 v_texCoord;'', ''varying vec2 v_quadCoord;'',
      ''varying vec4 v_hitColor;'', ''void main(void) {'',
      ''  if (false) { discard; }'', ''  gl_FragColor = vec4(1.0);'',
      ''  gl_FragColor.rgb *= gl_FragColor.a;'',
      ''  if (gl_FragColor.a < 0.1) { discard; } gl_FragColor = v_hitColor;'',
      ''}'']"
  by (simp add: getSymbolFragmentShader_def new_ShaderBuilder_def hitColorVarying_def varyingLine_def)

text \<open>
  Claim C5, as the code has it. For every builder the vertex shader starts with the
  precision line and six fixed uniforms (\<^verbatim>\<open>u_projectionMatrix\<close>,
  \<^verbatim>\<open>u_offsetScaleMatrix\<close>, \<^verbatim>\<open>u_offsetRotateMatrix\<close>, \<^verbatim>\<open>u_time\<close>,
  \<^verbatim>\<open>u_zoom\<close>, \<^verbatim>\<open>u_resolution\<close>), then the builder's uniforms, then two
  fixed attributes (\<^verbatim>\<open>vec2 a_position\<close>, \<^verbatim>\<open>float a_index\<close>), then the
  builder's attributes, then the built-in varyings \<^verbatim>\<open>v_texCoord\<close> and
  \<^verbatim>\<open>v_quadCoord\<close>, then the builder's varyings: the fixed declarations of each
  kind come before the builder's declarations of that kind.
\<close>

theorem vertex_skeleton:
  "\<exists>rest.
     fst (getSymbolVertexShader forHitDetection this) =
       ''precision mediump float;\<newline>'' @
       ''uniform mat4 u_projectionMatrix;\<newline>'' @
       ''uniform mat4 u_offsetScaleMatrix;\<newline>'' @
       ''uniform mat4 u_offsetRotateMatrix;\<newline>'' @
       ''uniform float u_time;\<newline>'' @
       ''uniform float u_zoom;\<newline>'' @
       ''uniform float u_resolution;\<newline>'' @
       join ''\<newline>'' (map (\<lambda>uniform. ''uniform '' @ uniform @ '';'') (uniforms this)) @
       ''\<newline>'' @
       ''attribute vec2 a_position;\<newline>'' @
       ''attribute float a_index;\<newline>'' @
       join ''\<newline>'' (map (\<lambda>attribute. ''attribute '' @ attribute @ '';'')
         (attributes this @ (if forHitDetection then [''vec4 a_hitColor''] else []))) @
       ''\<newline>'' @
       ''varying vec2 v_texCoord;\<newline>'' @
       ''varying vec2 v_quadCoord;\<newline>'' @
       join ''\<newline>'' (map (\<lambda>varying. ''varying '' @ varying_type varying @ '' '' @
                                       varying_name varying @ '';'')
         (varyings this @ (if forHitDetection then [hitColorVarying] else []))) @
       ''\<newline>'' @
       ''void main(void) {\<newline>'' @ rest"
proof -
  have u: "uniformLine = (\<lambda>uniform. ''uniform '' @ uniform @ '';'')"
    by (rule ext) (simp add: uniformLine_def)
  have a: "attributeLine = (\<lambda>attribute. ''attribute '' @ attribute @ '';'')"
    by (rule ext) (simp add: attributeLine_def)
  have v: "varyingLine = (\<lambda>varying. ''varying '' @ varying_type varying @ '' '' @
                                       varying_name varying @ '';'')"
    by (rule ext) (simp add: varyingLine_def)
  show ?thesis
    unfolding getSymbolVertexShader_def Let_def fst_conv u a v
    by (cases forHitDetection) simp_all
qed

text \<open>
  Claim C5, as stated, fails: the vertex shader of a new builder declares six uniforms,
  not four, and two attributes, not three.
\<close>

theorem vertex_skeleton_counterexample:
  "declarations ''uniform '' (fst (getSymbolVertexShader False new_ShaderBuilder)) =
     [''uniform mat4 u_projectionMatrix;'',
      ''uniform mat4 u_offsetScaleMatrix;'',
      ''uniform mat4 u_offsetRotateMatrix;'', ''uniform float u_time;'',
      ''uniform float u_zoom;'', ''uniform float u_resolution;''] \<and>
   declarations ''attribute '' (fst (getSymbolVertexShader False new_ShaderBuilder)) =
     [''attribute vec2 a_position;'', ''attribute float a_index;'']"
proof -
  have "splitLines (fst (getSymbolVertexShader False new_ShaderBuilder)) =
     [''precision mediump float;'', ''uniform mat4 u_projectionMatrix;'',
      ''uniform mat4 u_offsetScaleMatrix;'',
      ''uniform mat4 u_offsetRotateMatrix;'', ''uniform float u_time;'',
      ''uniform float u_zoom;'', ''uniform float u_resolution;'', [],
      ''attribute vec2 a_position;'', ''attribute float a_index;'', [],
      ''varying vec2 v_texCoord;'', ''varying vec2 v_quadCoord;'', [],
      ''void main(void) {'', ''  mat4 offsetMatrix = u_offsetScaleMatrix;'',
      ''  vec2 halfSize = vec2(1.0) * 0.5;'',
      ''  vec2 offset = vec2(0.0);'', ''  float angle = 0.0;'',
      ''  float offsetX;'', ''  float offsetY;'',
      ''  if (a_index == 0.0) {'',
      ''    offsetX = (offset.x - halfSize.x) * cos(angle) + (offset.y - halfSize.y) * sin(angle);'',
      ''    offsetY = (offset.y - halfSize.y) * cos(angle) - (offset.x - halfSize.x) * sin(angle);'',
      ''  } else if (a_index == 1.0) {'',
      ''    offsetX = (offset.x + halfSize.x) * cos(angle) + (offset.y - halfSize.y) * sin(angle);'',
      ''    offsetY = (offset.y - halfSize.y) * cos(angle) - (offset.x + halfSize.x) * sin(angle);'',
      ''  } else if (a_index == 2.0) {'',
      ''    offsetX = (offset.x + halfSize.x) * cos(angle) + (offset.y + halfSize.y) * sin(angle);'',
      ''    offsetY = (offset.y + halfSize.y) * cos(angle) - (offset.x + halfSize.x) * sin(angle);'',
      ''  } else {'',
      ''    offsetX = (offset.x - halfSize.x) * cos(angle) + (offset.y + halfSize.y) * sin(angle);'',
      ''    offsetY = (offset.y + halfSize.y) * cos(angle) - (offset.x - halfSize.x) * sin(angle);'',
      ''  }'',
      ''  vec4 offsets = offsetMatrix * vec4(offsetX, offsetY, 0.0, 0.0);'',
      ''  gl_Position = u_projectionMatrix * vec4(a_position, 0.0, 1.0) + offsets;'',
      ''  vec4 texCoord = vec4(0.0, 0.0, 1.0, 1.0);'',
      ''  float u = a_index == 0.0 || a_index == 3.0 ? texCoord.s : texCoord.p;'',
      ''  float v = a_index == 2.0 || a_index == 3.0 ? texCoord.t : texCoord.q;'',
      ''  v_texCoord = vec2(u, v);'',
      ''  u = a_index == 0.0 || a_index == 3.0 ? 0.0 : 1.0;'',
      ''  v = a_index == 2.0 || a_index == 3.0 ? 0.0 : 1.0;'',
      ''  v_quadCoord = vec2(u, v);'', [], ''}'']"
    unfolding getSymbolVertexShader_def new_ShaderBuilder_def Let_def
    apply (simp only: fst_conv ShaderBuilder.simps if_False list.map join.simps splitLines_append)
    apply simp
    done
  then show ?thesis by (simp add: declarations_def)
qed

subsection \<open>The style compiler\<close>

text \<open>
  Claim C1. When \<^verbatim>\<open>parseLiteralStyle\<close> returns, the colour expression of the
  returned builder is \<^verbatim>\<open>vec4(<color>.rgb, <color>.a * <opacity> * <mask>)\<close>,
  followed by the texture lookup only for an image symbol with a source. Here
  \<^verbatim>\<open><color>\<close> and \<^verbatim>\<open><opacity>\<close> are what the expression compiler returned
  for the colour and the opacity in the fragment context, and \<^verbatim>\<open><mask>\<close> is the
  mask of the symbol type, \<^verbatim>\<open>1.0\<close> for \<^verbatim>\<open>square\<close> and \<^verbatim>\<open>image\<close>. The
  opacity and the mask occur in the alpha component only.
\<close>

theorem color_expression:
  assumes "parseLiteralStyle X style = Inr result"
  shows "\<exists>c shapeMask fc fc' fc''.
           compileSymbol X (symbol style) = Inr c \<and>
           inFragmentShader fc \<and>
           expressionToGlsl X fc (color_or_default (symbol style)) (COLOR X) =
             Inr (parsedColor c, fc') \<and>
           expressionToGlsl X fc' (opacity_or_default (symbol style)) (NUMBER X) =
             Inr (parsedOpacity c, fc'') \<and>
           opacityFilter (symbol style) (visibleSize c) = Inr shapeMask \<and>
           (symbolType (symbol style) = JString ''square'' \<or>
            symbolType (symbol style) = JString ''image'' \<longrightarrow> shapeMask = ''1.0'') \<and>
           getColorExpression (builder result) =
             ''vec4('' @ parsedColor c @ ''.rgb, '' @ parsedColor c @ ''.a * '' @
             parsedOpacity c @ '' * '' @ shapeMask @ '')'' @
             (if symbolType (symbol style) = JString ''image'' \<and> truthy (src (symbol style))
              then '' * texture2D(u_texture, v_texCoord)'' else [])"
proof -
  from assms obtain c shapeMask state where
    c: "compileSymbol X (symbol style) = Inr c" and
    shapeMask: "opacityFilter (symbol style) (visibleSize c) = Inr shapeMask" and
    state: "compileFilter X style c (configuredBuilder (symbol style) c shapeMask) = Inr state" and
    result: "result = finish X (symbol style) state"
    unfolding parseLiteralStyle_Inr by blast
  from compileSymbol_color [OF c] obtain fc fc' fc'' where
    fc: "inFragmentShader fc"
      "expressionToGlsl X fc (color_or_default (symbol style)) (COLOR X) = Inr (parsedColor c, fc')"
      "expressionToGlsl X fc' (opacity_or_default (symbol style)) (NUMBER X) =
         Inr (parsedOpacity c, fc'')"
    by blast
  obtain b vc fc1 where st: "state = (b, vc, fc1)" by (cases state) auto
  have b: "colorExpression b =
             ''vec4('' @ parsedColor c @ ''.rgb, '' @ parsedColor c @ ''.a * '' @
             parsedOpacity c @ '' * '' @ shapeMask @ '')''"
    using state unfolding st compileFilter_Inr
    by (auto simp: configuredBuilder_def setColorExpression_def setFragmentDiscardExpression_def
        split: if_splits)
  have m: "symbolType (symbol style) = JString ''square'' \<or>
           symbolType (symbol style) = JString ''image'' \<longrightarrow> shapeMask = ''1.0''"
    using shapeMask by (auto simp: opacityFilter_def)
  have col: "getColorExpression (builder result) =
             ''vec4('' @ parsedColor c @ ''.rgb, '' @ parsedColor c @ ''.a * '' @
             parsedOpacity c @ '' * '' @ shapeMask @ '')'' @
             (if symbolType (symbol style) = JString ''image'' \<and> truthy (src (symbol style))
              then '' * texture2D(u_texture, v_texCoord)'' else [])"
    unfolding result st getColorExpression_def finish_builder by (simp add: b)
  from c fc shapeMask m col show ?thesis by blast
qed

text \<open>Claim C1 at a circle of size 2 with every other field absent.\<close>

theorem color_expression_witness:
  "\<exists>result.
     parseLiteralStyle sample_expressions
       (styleOf ((plainSymbol ''circle'')\<lparr>symbol_size := JNumber 2\<rparr>)) = Inr result \<and>
     getColorExpression (builder result) =
       ''vec4(white.rgb, white.a * 1.0 * (1.0-smoothstep(1.-4./vec2(2.0).x,1.,dot(v_quadCoord-.5,v_quadCoord-.5)*4.)))''"
proof -
  let ?style = "styleOf ((plainSymbol ''circle'')\<lparr>symbol_size := JNumber 2\<rparr>)"
  have "\<exists>result. parseLiteralStyle sample_expressions ?style = Inr result"
    by (simp add: model_defs sample_defs)
  then obtain result where r: "parseLiteralStyle sample_expressions ?style = Inr result" ..
  from color_expression [OF r] obtain c shapeMask where
    c: "compileSymbol sample_expressions (symbol ?style) = Inr c" and
    shapeMask: "opacityFilter (symbol ?style) (visibleSize c) = Inr shapeMask" and
    col: "getColorExpression (builder result) =
             ''vec4('' @ parsedColor c @ ''.rgb, '' @ parsedColor c @ ''.a * '' @
             parsedOpacity c @ '' * '' @ shapeMask @ '')'' @
             (if symbolType (symbol ?style) = JString ''image'' \<and> truthy (src (symbol ?style))
              then '' * texture2D(u_texture, v_texCoord)'' else [])"
    by blast
  from c have c': "parsedColor c = ''white'' \<and> parsedOpacity c = ''1.0'' \<and> visibleSize c = ''vec2(2.0).x''"
    by (auto simp: model_defs sample_defs)
  from shapeMask c' have "shapeMask = ''(1.0-smoothstep(1.-4./vec2(2.0).x,1.,dot(v_quadCoord-.5,v_quadCoord-.5)*4.))''"
    by (simp add: opacityFilter_def sample_defs)
  with col c' have "getColorExpression (builder result) =
       ''vec4(white.rgb, white.a * 1.0 * (1.0-smoothstep(1.-4./vec2(2.0).x,1.,dot(v_quadCoord-.5,v_quadCoord-.5)*4.)))''"
    by (simp add: sample_defs)
  with r show ?thesis by blast
qed

text \<open>
  Claim C2. If the symbol type is none of \<^verbatim>\<open>square\<close>, \<^verbatim>\<open>circle\<close>,
  \<^verbatim>\<open>triangle\<close>, \<^verbatim>\<open>image\<close>, then \<^verbatim>\<open>parseLiteralStyle\<close> throws and returns
  nothing: it throws what the expression compiler threw on one of the symbol's fields,
  or else the error of the switch, which comes before the builder is created.
\<close>

theorem unknown_symbol_type_throws:
  assumes "symbolType (symbol style) \<noteq> JString ''square''"
    and "symbolType (symbol style) \<noteq> JString ''image''"
    and "symbolType (symbol style) \<noteq> JString ''circle''"
    and "symbolType (symbol style) \<noteq> JString ''triangle''"
  shows "(\<exists>e. parseLiteralStyle X style = Inl e) \<and>
         parseLiteralStyle X style =
           (case compileSymbol X (symbol style) of
              Inl e \<Rightarrow> Inl e
            | Inr c \<Rightarrow> Inl (UnexpectedSymbolType (symbolType (symbol style))))"
proof -
  have "parseLiteralStyle X style =
           (case compileSymbol X (symbol style) of
              Inl e \<Rightarrow> Inl e
            | Inr c \<Rightarrow> Inl (UnexpectedSymbolType (symbolType (symbol style))))"
    using assms
    by (simp add: parseLiteralStyle_def Let_def andThen_def opacityFilter_def split: sum.splits)
  then show ?thesis by (auto split: sum.splits)
qed

text \<open>Claim C2 at the symbol type \<^verbatim>\<open>hexagon\<close>.\<close>

theorem unknown_symbol_type_throws_witness:
  "parseLiteralStyle sample_expressions (styleOf (plainSymbol ''hexagon'')) =
     Inl (UnexpectedSymbolType (JString ''hexagon''))"
proof -
  let ?style = "styleOf (plainSymbol ''hexagon'')"
  have t: "symbolType (symbol ?style) = JString ''hexagon''"
    by (simp add: styleOf_def plainSymbol_def)
  have c: "\<exists>c. compileSymbol sample_expressions (symbol ?style) = Inr c"
    by (simp add: model_defs sample_defs)
  have "parseLiteralStyle sample_expressions ?style =
           (case compileSymbol sample_expressions (symbol ?style) of
              Inl e \<Rightarrow> Inl e
            | Inr c \<Rightarrow> Inl (UnexpectedSymbolType (symbolType (symbol ?style))))"
    using unknown_symbol_type_throws [of ?style sample_expressions] by (simp add: t)
  with c t show ?thesis by auto
qed

text \<open>
  Claim C8, as the code has it. If the filter of the style is truthy, the discard
  expression of the returned builder is \<^verbatim>\<open>!\<close> followed by what the expression
  compiler returned for the filter in the fragment context; if the filter is falsy
  (absent, but also \<^verbatim>\<open>false\<close>, \<^verbatim>\<open>0\<close>, \<^verbatim>\<open>null\<close>, \<^verbatim>\<open>NaN\<close> or the empty
  string) the discard expression stays \<^verbatim>\<open>false\<close>.
\<close>

theorem filter_discard:
  assumes "parseLiteralStyle X style = Inr result"
  shows "if truthy (style_filter style) then
           \<exists>c parsedFilter fc.
             compileSymbol X (symbol style) = Inr c \<and>
             expressionToGlsl X (fragContext c) (style_filter style) (BOOLEAN X) =
               Inr (parsedFilter, fc) \<and>
             getFragmentDiscardExpression (builder result) = ''!'' @ parsedFilter
         else getFragmentDiscardExpression (builder result) = ''false''"
proof -
  from assms obtain c shapeMask state where
    c: "compileSymbol X (symbol style) = Inr c" and
    state: "compileFilter X style c (configuredBuilder (symbol style) c shapeMask) = Inr state" and
    result: "result = finish X (symbol style) state"
    unfolding parseLiteralStyle_Inr by blast
  obtain b vc fc1 where st: "state = (b, vc, fc1)" by (cases state) auto
  have d: "getFragmentDiscardExpression (builder result) = discardExpression b"
    unfolding result st getFragmentDiscardExpression_def finish_builder by simp
  show ?thesis
  proof (cases "truthy (style_filter style)")
    case True
    with state obtain parsedFilter fc where
      "expressionToGlsl X (fragContext c) (style_filter style) (BOOLEAN X) = Inr (parsedFilter, fc)"
      "b = setFragmentDiscardExpression (''!'' @ parsedFilter) (configuredBuilder (symbol style) c shapeMask)"
      unfolding st compileFilter_Inr by auto
    with c d True show ?thesis by (auto simp: setFragmentDiscardExpression_def)
  next
    case False
    with state have "b = configuredBuilder (symbol style) c shapeMask"
      unfolding st compileFilter_Inr by simp
    with d False show ?thesis
      by (simp add: configuredBuilder_def new_ShaderBuilder_def setColorExpression_def
          setSymbolRotateWithView_def setTextureCoordinateExpression_def
          setSymbolOffsetExpression_def setRotationExpression_def setSizeExpression_def)
  qed
qed

text \<open>Claim C8 at the filter \<^verbatim>\<open>true\<close>.\<close>

theorem filter_discard_witness:
  "\<exists>result.
     parseLiteralStyle sample_expressions
       ((styleOf (plainSymbol ''square''))\<lparr>style_filter := JBoolean True\<rparr>) = Inr result \<and>
     getFragmentDiscardExpression (builder result) = ''!true''"
proof -
  let ?style = "(styleOf (plainSymbol ''square''))\<lparr>style_filter := JBoolean True\<rparr>"
  have "\<exists>result. parseLiteralStyle sample_expressions ?style = Inr result"
    by (simp add: model_defs sample_defs)
  then obtain result where r: "parseLiteralStyle sample_expressions ?style = Inr result" ..
  have t: "truthy (style_filter ?style)" by simp
  from filter_discard [OF r] t have
    "\<exists>c parsedFilter fc.
       compileSymbol sample_expressions (symbol ?style) = Inr c \<and>
       expressionToGlsl sample_expressions (fragContext c) (style_filter ?style)
         (BOOLEAN sample_expressions) = Inr (parsedFilter, fc) \<and>
       getFragmentDiscardExpression (builder result) = ''!'' @ parsedFilter"
    by (simp only: if_True)
  then obtain c where
    "\<exists>parsedFilter fc.
       compileSymbol sample_expressions (symbol ?style) = Inr c \<and>
       expressionToGlsl sample_expressions (fragContext c) (style_filter ?style)
         (BOOLEAN sample_expressions) = Inr (parsedFilter, fc) \<and>
       getFragmentDiscardExpression (builder result) = ''!'' @ parsedFilter" ..
  then obtain parsedFilter where
    "\<exists>fc.
       compileSymbol sample_expressions (symbol ?style) = Inr c \<and>
       expressionToGlsl sample_expressions (fragContext c) (style_filter ?style)
         (BOOLEAN sample_expressions) = Inr (parsedFilter, fc) \<and>
       getFragmentDiscardExpression (builder result) = ''!'' @ parsedFilter" ..
  then obtain fc where
    "compileSymbol sample_expressions (symbol ?style) = Inr c \<and>
     expressionToGlsl sample_expressions (fragContext c) (style_filter ?style)
       (BOOLEAN sample_expressions) = Inr (parsedFilter, fc) \<and>
     getFragmentDiscardExpression (builder result) = ''!'' @ parsedFilter" ..
  then have "getFragmentDiscardExpression (builder result) = ''!true''"
    by (auto simp: sample_defs)
  with r show ?thesis by blast
qed

text \<open>
  Claim C8, as stated, fails for the filter \<^verbatim>\<open>false\<close>: the style contains a
  filter expression, and the discard expression is \<^verbatim>\<open>false\<close>, not \<^verbatim>\<open>!false\<close>.
\<close>

theorem filter_discard_counterexample:
  "map_sum id (\<lambda>result. getFragmentDiscardExpression (builder result))
     (parseLiteralStyle sample_expressions
        ((styleOf (plainSymbol ''square''))\<lparr>style_filter := JBoolean False\<rparr>)) =
   Inr ''false''"
  by (simp add: model_defs sample_defs getFragmentDiscardExpression_def)

text \<open>
  Claim C6, as the code has it. When \<^verbatim>\<open>parseLiteralStyle\<close> returns, the
  expression compiler was given, in this order: the size, or 1 exactly when the size is
  \<^verbatim>\<open>undefined\<close>; the offset, or \<^verbatim>\<open>[0, 0]\<close> exactly when the offset is falsy
  (\<^verbatim>\<open>undefined\<close>, \<^verbatim>\<open>null\<close>, \<^verbatim>\<open>false\<close>, \<^verbatim>\<open>0\<close>, \<^verbatim>\<open>NaN\<close> or the
  empty string); the texture rectangle, or \<^verbatim>\<open>[0, 0, 1, 1]\<close> exactly when it is
  falsy; the rotation, or 0 exactly when it is \<^verbatim>\<open>undefined\<close>; the colour, or
  \<^verbatim>\<open>'white'\<close> exactly when it is falsy; the opacity, or 1 exactly when it is
  \<^verbatim>\<open>undefined\<close>; and the size again. What the compiler returned for them is what
  the size, offset, texture coordinate, rotation and colour slots of the returned builder
  hold. So a size, opacity or rotation of \<^verbatim>\<open>0\<close> is kept, and a colour, texture
  rectangle or offset that is present but falsy is replaced.
\<close>

theorem style_defaults:
  assumes "parseLiteralStyle X style = Inr result"
  shows "\<exists>sizeText vc1 offsetText vc2 texCoordText vc3 rotationText vc4 colorText fc1
            opacityText fc2 fragSizeText fc3 shapeMask.
           expressionToGlsl X
             \<lparr>inFragmentShader = False, variables = [], context_attributes = [],
              stringLiteralsMap = [], context_functions = []\<rparr>
             (if symbol_size (symbol style) = JUndefined then JNumber 1
              else symbol_size (symbol style))
             (NUMBER_ARRAY X OR NUMBER X) = Inr (sizeText, vc1) \<and>
           expressionToGlsl X vc1
             (if offset (symbol style) \<in>
                   {JUndefined, JNull, JBoolean False, JNumber 0, JNaN, JString []}
              then JArray [JNumber 0, JNumber 0] else offset (symbol style))
             (NUMBER_ARRAY X) = Inr (offsetText, vc2) \<and>
           expressionToGlsl X vc2
             (if textureCoord (symbol style) \<in>
                   {JUndefined, JNull, JBoolean False, JNumber 0, JNaN, JString []}
              then JArray [JNumber 0, JNumber 0, JNumber 1, JNumber 1]
              else textureCoord (symbol style))
             (NUMBER_ARRAY X) = Inr (texCoordText, vc3) \<and>
           expressionToGlsl X vc3
             (if rotation (symbol style) = JUndefined then JNumber 0
              else rotation (symbol style))
             (NUMBER X) = Inr (rotationText, vc4) \<and>
           expressionToGlsl X
             \<lparr>inFragmentShader = True, variables = variables vc4, context_attributes = [],
              stringLiteralsMap = stringLiteralsMap vc4, context_functions = []\<rparr>
             (if color (symbol style) \<in>
                   {JUndefined, JNull, JBoolean False, JNumber 0, JNaN, JString []}
              then JString ''white'' else color (symbol style))
             (COLOR X) = Inr (colorText, fc1) \<and>
           expressionToGlsl X fc1
             (if opacity (symbol style) = JUndefined then JNumber 1
              else opacity (symbol style))
             (NUMBER X) = Inr (opacityText, fc2) \<and>
           expressionToGlsl X fc2
             (if symbol_size (symbol style) = JUndefined then JNumber 1
              else symbol_size (symbol style))
             (NUMBER_ARRAY X OR NUMBER X) = Inr (fragSizeText, fc3) \<and>
           opacityFilter (symbol style) (''vec2('' @ fragSizeText @ '').x'') = Inr shapeMask \<and>
           getSizeExpression (builder result) = ''vec2('' @ sizeText @ '')'' \<and>
           getOffsetExpression (builder result) = offsetText \<and>
           getTextureCoordinateExpression (builder result) = texCoordText \<and>
           rotationExpression (builder result) = rotationText \<and>
           getColorExpression (builder result) =
             ''vec4('' @ colorText @ ''.rgb, '' @ colorText @ ''.a * '' @ opacityText @
             '' * '' @ shapeMask @ '')'' @
             (if symbolType (symbol style) = JString ''image'' \<and> truthy (src (symbol style))
              then '' * texture2D(u_texture, v_texCoord)'' else [])"
proof -
  from assms obtain c shapeMask state where
    c: "compileSymbol X (symbol style) = Inr c" and
    shapeMask: "opacityFilter (symbol style) (visibleSize c) = Inr shapeMask" and
    state: "compileFilter X style c (configuredBuilder (symbol style) c shapeMask) = Inr state" and
    result: "result = finish X (symbol style) state"
    unfolding parseLiteralStyle_Inr by blast
  obtain b vc fc where st: "state = (b, vc, fc)" by (cases state) auto
  from compileSymbol_calls [OF c, unfolded defaults_explicit]
  obtain vc1 vc2 vc3 vc4 fc1 fc2 fragSize fc3 where calls:
    "expressionToGlsl X
       \<lparr>inFragmentShader = False, variables = [], context_attributes = [],
        stringLiteralsMap = [], context_functions = []\<rparr>
       (if symbol_size (symbol style) = JUndefined then JNumber 1
        else symbol_size (symbol style))
       (NUMBER_ARRAY X OR NUMBER X) = Inr (parsedSize c, vc1)"
    "expressionToGlsl X vc1
       (if offset (symbol style) \<in>
             {JUndefined, JNull, JBoolean False, JNumber 0, JNaN, JString []}
        then JArray [JNumber 0, JNumber 0] else offset (symbol style))
       (NUMBER_ARRAY X) = Inr (parsedOffset c, vc2)"
    "expressionToGlsl X vc2
       (if textureCoord (symbol style) \<in>
             {JUndefined, JNull, JBoolean False, JNumber 0, JNaN, JString []}
        then JArray [JNumber 0, JNumber 0, JNumber 1, JNumber 1]
        else textureCoord (symbol style))
       (NUMBER_ARRAY X) = Inr (parsedTexCoord c, vc3)"
    "expressionToGlsl X vc3
       (if rotation (symbol style) = JUndefined then JNumber 0
        else rotation (symbol style))
       (NUMBER X) = Inr (parsedRotation c, vc4)"
    "expressionToGlsl X
       \<lparr>inFragmentShader = True, variables = variables vc4, context_attributes = [],
        stringLiteralsMap = stringLiteralsMap vc4, context_functions = []\<rparr>
       (if color (symbol style) \<in>
             {JUndefined, JNull, JBoolean False, JNumber 0, JNaN, JString []}
        then JString ''white'' else color (symbol style))
       (COLOR X) = Inr (parsedColor c, fc1)"
    "expressionToGlsl X fc1
       (if opacity (symbol style) = JUndefined then JNumber 1
        else opacity (symbol style))
       (NUMBER X) = Inr (parsedOpacity c, fc2)"
    "expressionToGlsl X fc2
       (if symbol_size (symbol style) = JUndefined then JNumber 1
        else symbol_size (symbol style))
       (NUMBER_ARRAY X OR NUMBER X) = Inr (fragSize, fc3)"
    "visibleSize c = ''vec2('' @ fragSize @ '').x''"
    by (elim exE conjE) (rule that)
  have b: "sizeExpression b = ''vec2('' @ parsedSize c @ '')'' \<and>
           offsetExpression b = parsedOffset c \<and>
           texCoordExpression b = parsedTexCoord c \<and>
           rotationExpression b = parsedRotation c \<and>
           colorExpression b =
             ''vec4('' @ parsedColor c @ ''.rgb, '' @ parsedColor c @ ''.a * '' @
             parsedOpacity c @ '' * '' @ shapeMask @ '')''"
    using state unfolding st compileFilter_Inr
    by (auto simp: configuredBuilder_def new_ShaderBuilder_def setColorExpression_def
        setSymbolRotateWithView_def setTextureCoordinateExpression_def
        setSymbolOffsetExpression_def setRotationExpression_def setSizeExpression_def
        setFragmentDiscardExpression_def split: if_splits)
  note fs = finish_slots [of X "symbol style" b vc fc]
  have 1: "getSizeExpression (builder result) = ''vec2('' @ parsedSize c @ '')''"
    unfolding result st getSizeExpression_def using fs b by simp
  have 2: "getOffsetExpression (builder result) = parsedOffset c"
    unfolding result st getOffsetExpression_def using fs b by simp
  have 3: "getTextureCoordinateExpression (builder result) = parsedTexCoord c"
    unfolding result st getTextureCoordinateExpression_def using fs b by simp
  have 4: "rotationExpression (builder result) = parsedRotation c"
    unfolding result st using fs b by simp
  have 5: "getColorExpression (builder result) =
             ''vec4('' @ parsedColor c @ ''.rgb, '' @ parsedColor c @ ''.a * '' @
             parsedOpacity c @ '' * '' @ shapeMask @ '')'' @
             (if symbolType (symbol style) = JString ''image'' \<and> truthy (src (symbol style))
              then '' * texture2D(u_texture, v_texCoord)'' else [])"
    unfolding result st getColorExpression_def finish_builder using b by simp
  have 6: "opacityFilter (symbol style) (''vec2('' @ fragSize @ '').x'') = Inr shapeMask"
    using shapeMask calls(8) by simp
  show ?thesis
    apply (rule exI [of _ "parsedSize c"], rule exI [of _ vc1])
    apply (rule exI [of _ "parsedOffset c"], rule exI [of _ vc2])
    apply (rule exI [of _ "parsedTexCoord c"], rule exI [of _ vc3])
    apply (rule exI [of _ "parsedRotation c"], rule exI [of _ vc4])
    apply (rule exI [of _ "parsedColor c"], rule exI [of _ fc1])
    apply (rule exI [of _ "parsedOpacity c"], rule exI [of _ fc2])
    apply (rule exI [of _ fragSize], rule exI [of _ fc3], rule exI [of _ shapeMask])
    using calls(1-7) 6 1 2 3 4 5 by (intro conjI)
qed

text \<open>
  Claim C6 at a square of size 0 and opacity 0 with every other field absent: the zeros
  reach the size and colour slots, the absent fields take their defaults.
\<close>

theorem style_defaults_witness:
  "\<exists>result.
     parseLiteralStyle sample_expressions
       (styleOf ((plainSymbol ''square'')\<lparr>symbol_size := JNumber 0, opacity := JNumber 0\<rparr>)) =
       Inr result \<and>
     getSizeExpression (builder result) = ''vec2(0.0)'' \<and>
     getOffsetExpression (builder result) = ''vec2(0.0, 0.0)'' \<and>
     getTextureCoordinateExpression (builder result) = ''vec4(0.0, 0.0, 1.0, 1.0)'' \<and>
     rotationExpression (builder result) = ''0.0'' \<and>
     getColorExpression (builder result) = ''vec4(white.rgb, white.a * 0.0 * 1.0)''"
proof -
  let ?style =
    "styleOf ((plainSymbol ''square'')\<lparr>symbol_size := JNumber 0, opacity := JNumber 0\<rparr>)"
  let ?X = sample_expressions
  have "\<exists>result. parseLiteralStyle ?X ?style = Inr result"
    by (simp add: model_defs sample_defs)
  then obtain result where r: "parseLiteralStyle ?X ?style = Inr result" ..
  have f: "symbol_size (symbol ?style) = JNumber 0" "opacity (symbol ?style) = JNumber 0"
    "offset (symbol ?style) = JUndefined" "textureCoord (symbol ?style) = JUndefined"
    "rotation (symbol ?style) = JUndefined" "color (symbol ?style) = JUndefined"
    "symbolType (symbol ?style) = JString ''square''"
    by (simp_all add: styleOf_def plainSymbol_def)
  from style_defaults [OF r, unfolded f]
  obtain sizeText vc1 offsetText vc2 texCoordText vc3 rotationText vc4 colorText fc1
      opacityText fc2 fragSizeText fc3 shapeMask where
    e: "expressionToGlsl ?X
         \<lparr>inFragmentShader = False, variables = [], context_attributes = [],
          stringLiteralsMap = [], context_functions = []\<rparr>
         (if JNumber 0 = JUndefined then JNumber 1 else JNumber 0)
         (NUMBER_ARRAY ?X OR NUMBER ?X) = Inr (sizeText, vc1)"
       "expressionToGlsl ?X vc1
         (if JUndefined \<in> {JUndefined, JNull, JBoolean False, JNumber 0, JNaN, JString []}
          then JArray [JNumber 0, JNumber 0] else JUndefined)
         (NUMBER_ARRAY ?X) = Inr (offsetText, vc2)"
       "expressionToGlsl ?X vc2
         (if JUndefined \<in> {JUndefined, JNull, JBoolean False, JNumber 0, JNaN, JString []}
          then JArray [JNumber 0, JNumber 0, JNumber 1, JNumber 1] else JUndefined)
         (NUMBER_ARRAY ?X) = Inr (texCoordText, vc3)"
       "expressionToGlsl ?X vc3
         (if JUndefined = JUndefined then JNumber 0 else JUndefined)
         (NUMBER ?X) = Inr (rotationText, vc4)"
       "expressionToGlsl ?X
         \<lparr>inFragmentShader = True, variables = variables vc4, context_attributes = [],
          stringLiteralsMap = stringLiteralsMap vc4, context_functions = []\<rparr>
         (if JUndefined \<in> {JUndefined, JNull, JBoolean False, JNumber 0, JNaN, JString []}
          then JString ''white'' else JUndefined)
         (COLOR ?X) = Inr (colorText, fc1)"
       "expressionToGlsl ?X fc1
         (if JNumber 0 = JUndefined then JNumber 1 else JNumber 0)
         (NUMBER ?X) = Inr (opacityText, fc2)" and
    m: "opacityFilter (symbol ?style) (''vec2('' @ fragSizeText @ '').x'') = Inr shapeMask" and
    g: "getSizeExpression (builder result) = ''vec2('' @ sizeText @ '')''"
       "getOffsetExpression (builder result) = offsetText"
       "getTextureCoordinateExpression (builder result) = texCoordText"
       "rotationExpression (builder result) = rotationText"
       "getColorExpression (builder result) =
         ''vec4('' @ colorText @ ''.rgb, '' @ colorText @ ''.a * '' @ opacityText @
         '' * '' @ shapeMask @ '')'' @
         (if JString ''square'' = JString ''image'' \<and> truthy (src (symbol ?style))
          then '' * texture2D(u_texture, v_texCoord)'' else [])"
    by (elim exE conjE) (rule that)
  from e have t: "sizeText = ''0.0''" "offsetText = ''vec2(0.0, 0.0)''"
    "texCoordText = ''vec4(0.0, 0.0, 1.0, 1.0)''" "rotationText = ''0.0''"
    "colorText = ''white''" "opacityText = ''0.0''"
    by (auto simp: sample_defs)
  from m have sm: "shapeMask = ''1.0''"
    by (simp add: opacityFilter_def f)
  from g have
    "getSizeExpression (builder result) = ''vec2(0.0)''"
    "getOffsetExpression (builder result) = ''vec2(0.0, 0.0)''"
    "getTextureCoordinateExpression (builder result) = ''vec4(0.0, 0.0, 1.0, 1.0)''"
    "rotationExpression (builder result) = ''0.0''"
    "getColorExpression (builder result) = ''vec4(white.rgb, white.a * 0.0 * 1.0)''"
    unfolding t sm by simp_all
  with r show ?thesis by blast
qed

text \<open>
  Claim C6, as stated, fails for fields that are present and falsy: an empty colour
  string and the colour \<^verbatim>\<open>null\<close> compile as \<^verbatim>\<open>'white'\<close>, the offset
  \<^verbatim>\<open>0\<close> as \<^verbatim>\<open>[0, 0]\<close> and the texture rectangle \<^verbatim>\<open>null\<close> as
  \<^verbatim>\<open>[0, 0, 1, 1]\<close>.
\<close>

theorem style_defaults_counterexample:
  "map_sum id (getColorExpression \<circ> builder)
     (parseLiteralStyle sample_expressions
        (styleOf ((plainSymbol ''square'')\<lparr>color := JString []\<rparr>))) =
     Inr ''vec4(white.rgb, white.a * 1.0 * 1.0)'' \<and>
   map_sum id (getColorExpression \<circ> builder)
     (parseLiteralStyle sample_expressions
        (styleOf ((plainSymbol ''square'')\<lparr>color := JNull\<rparr>))) =
     Inr ''vec4(white.rgb, white.a * 1.0 * 1.0)'' \<and>
   map_sum id (getOffsetExpression \<circ> builder)
     (parseLiteralStyle sample_expressions
        (styleOf ((plainSymbol ''square'')\<lparr>offset := JNumber 0\<rparr>))) =
     Inr ''vec2(0.0, 0.0)'' \<and>
   map_sum id (getTextureCoordinateExpression \<circ> builder)
     (parseLiteralStyle sample_expressions
        (styleOf ((plainSymbol ''square'')\<lparr>textureCoord := JNull\<rparr>))) =
     Inr ''vec4(0.0, 0.0, 1.0, 1.0)''"
  by (simp add: model_defs sample_defs getOffsetExpression_def getTextureCoordinateExpression_def)

text \<open>
  Claim C3, as the code has it. For every name in the variables of the context,
  \<^verbatim>\<open>parseLiteralStyle\<close> declares the uniform \<^verbatim>\<open>float <uniform name>\<close> and
  stores under the uniform name a function for a variable of that uniform name (unless
  the texture of an image symbol, stored later under \<^verbatim>\<open>u_texture\<close>, takes that
  place). The function throws when the style has no variables or the variable reads as
  \<^verbatim>\<open>undefined\<close>, whether its key is absent or present with the value
  \<^verbatim>\<open>undefined\<close>; it converts a string with \<^verbatim>\<open>getStringNumberEquivalent\<close> on
  the vertex context, whose literal table is the one the fragment context filled, and
  returns \<open>-9999999\<close> only when that conversion yields \<^verbatim>\<open>undefined\<close>; it
  returns any other value as it is.
\<close>

theorem variable_uniforms:
  assumes "parseLiteralStyle X style = Inr result"
  shows "\<exists>c shapeMask b vc fc.
           compileSymbol X (symbol style) = Inr c \<and>
           opacityFilter (symbol style) (visibleSize c) = Inr shapeMask \<and>
           compileFilter X style c (configuredBuilder (symbol style) c shapeMask) =
             Inr (b, vc, fc) \<and>
           variables (result_vertContext result) = variables fc \<and>
           stringLiteralsMap (result_vertContext result) = stringLiteralsMap fc \<and>
           uniforms (builder result) =
             map (\<lambda>varName. ''float '' @ uniformNameForVariable X varName) (variables fc) @
             (if symbolType (symbol style) = JString ''image'' \<and> truthy (src (symbol style))
              then [''sampler2D u_texture''] else []) \<and>
           (\<forall>varName \<in> set (variables fc).
              (\<exists>v' \<in> set (variables fc).
                 uniformNameForVariable X v' = uniformNameForVariable X varName \<and>
                 result_uniforms result (uniformNameForVariable X varName) =
                   (if symbolType (symbol style) = JString ''image'' \<and>
                       truthy (src (symbol style)) \<and>
                       uniformNameForVariable X varName = ''u_texture''
                    then Some (UniformTexture
                           \<lparr>image_crossOrigin =
                              (if crossOrigin (symbol style) = JUndefined then JString ''anonymous''
                               else crossOrigin (symbol style)),
                            image_src = src (symbol style)\<rparr>)
                    else Some (UniformFunction (uniformFunction X v')))) \<and>
              (\<forall>vars ctx.
                 uniformFunction X varName None ctx = Inl (MissingVariable varName) \<and>
                 (property vars varName = JUndefined \<longrightarrow>
                    uniformFunction X varName (Some vars) ctx = Inl (MissingVariable varName)) \<and>
                 (\<forall>s. property vars varName = JString s \<longrightarrow>
                    uniformFunction X varName (Some vars) ctx =
                      (case getStringNumberEquivalent X ctx s of
                         Inl message \<Rightarrow> Inl (ExpressionError message)
                       | Inr (value, ctx') \<Rightarrow>
                           Inr (if value = JUndefined then JNumber (- 9999999) else value, ctx'))) \<and>
                 (property vars varName \<noteq> JUndefined \<longrightarrow>
                  (\<forall>s. property vars varName \<noteq> JString s) \<longrightarrow>
                    uniformFunction X varName (Some vars) ctx = Inr (property vars varName, ctx))))"
proof -
  from assms obtain c shapeMask state where
    c: "compileSymbol X (symbol style) = Inr c" and
    shapeMask: "opacityFilter (symbol style) (visibleSize c) = Inr shapeMask" and
    state: "compileFilter X style c (configuredBuilder (symbol style) c shapeMask) = Inr state" and
    result: "result = finish X (symbol style) state"
    unfolding parseLiteralStyle_Inr by blast
  obtain b vc fc where st: "state = (b, vc, fc)" by (cases state) auto
  note e = compileFilter_state [OF c state [unfolded st]]
  from finish_vertContext [of X "symbol style" b vc fc] obtain new where
    new: "result_vertContext result = vc\<lparr>context_attributes := context_attributes vc @ new\<rparr>"
    unfolding result st by blast
  have 1: "variables (result_vertContext result) = variables fc"
    using new e by simp
  have 2: "stringLiteralsMap (result_vertContext result) = stringLiteralsMap fc"
    using new e by simp
  have 3: "uniforms (builder result) =
             map (\<lambda>varName. ''float '' @ uniformNameForVariable X varName) (variables fc) @
             (if symbolType (symbol style) = JString ''image'' \<and> truthy (src (symbol style))
              then [''sampler2D u_texture''] else [])"
    unfolding result st finish_builder using e by simp
  have 4: "\<forall>varName \<in> set (variables fc).
              (\<exists>v' \<in> set (variables fc).
                 uniformNameForVariable X v' = uniformNameForVariable X varName \<and>
                 result_uniforms result (uniformNameForVariable X varName) =
                   (if symbolType (symbol style) = JString ''image'' \<and>
                       truthy (src (symbol style)) \<and>
                       uniformNameForVariable X varName = ''u_texture''
                    then Some (UniformTexture
                           \<lparr>image_crossOrigin =
                              (if crossOrigin (symbol style) = JUndefined then JString ''anonymous''
                               else crossOrigin (symbol style)),
                            image_src = src (symbol style)\<rparr>)
                    else Some (UniformFunction (uniformFunction X v')))) \<and>
              (\<forall>vars ctx.
                 uniformFunction X varName None ctx = Inl (MissingVariable varName) \<and>
                 (property vars varName = JUndefined \<longrightarrow>
                    uniformFunction X varName (Some vars) ctx = Inl (MissingVariable varName)) \<and>
                 (\<forall>s. property vars varName = JString s \<longrightarrow>
                    uniformFunction X varName (Some vars) ctx =
                      (case getStringNumberEquivalent X ctx s of
                         Inl message \<Rightarrow> Inl (ExpressionError message)
                       | Inr (value, ctx') \<Rightarrow>
                           Inr (if value = JUndefined then JNumber (- 9999999) else value, ctx'))) \<and>
                 (property vars varName \<noteq> JUndefined \<longrightarrow>
                  (\<forall>s. property vars varName \<noteq> JString s) \<longrightarrow>
                    uniformFunction X varName (Some vars) ctx = Inr (property vars varName, ctx)))"
  proof (intro ballI conjI)
    fix varName assume v: "varName \<in> set (variables fc)"
    then have "uniformNameForVariable X varName \<in> uniformNameForVariable X ` set (variables fc)"
      by (rule imageI)
    from fold_defineUniform_snd [OF this, of b Map.empty] obtain v' where
      v': "v' \<in> set (variables fc)"
        "uniformNameForVariable X v' = uniformNameForVariable X varName"
        "snd (fold (defineUniform X) (variables fc) (b, Map.empty))
           (uniformNameForVariable X varName) = Some (UniformFunction (uniformFunction X v'))"
      by blast
    show "\<exists>v' \<in> set (variables fc).
                 uniformNameForVariable X v' = uniformNameForVariable X varName \<and>
                 result_uniforms result (uniformNameForVariable X varName) =
                   (if symbolType (symbol style) = JString ''image'' \<and>
                       truthy (src (symbol style)) \<and>
                       uniformNameForVariable X varName = ''u_texture''
                    then Some (UniformTexture
                           \<lparr>image_crossOrigin =
                              (if crossOrigin (symbol style) = JUndefined then JString ''anonymous''
                               else crossOrigin (symbol style)),
                            image_src = src (symbol style)\<rparr>)
                    else Some (UniformFunction (uniformFunction X v')))"
      apply (rule bexI [of _ v'])
      unfolding result st finish_uniforms using v' by simp_all
    show "\<forall>vars ctx.
                 uniformFunction X varName None ctx = Inl (MissingVariable varName) \<and>
                 (property vars varName = JUndefined \<longrightarrow>
                    uniformFunction X varName (Some vars) ctx = Inl (MissingVariable varName)) \<and>
                 (\<forall>s. property vars varName = JString s \<longrightarrow>
                    uniformFunction X varName (Some vars) ctx =
                      (case getStringNumberEquivalent X ctx s of
                         Inl message \<Rightarrow> Inl (ExpressionError message)
                       | Inr (value, ctx') \<Rightarrow>
                           Inr (if value = JUndefined then JNumber (- 9999999) else value, ctx'))) \<and>
                 (property vars varName \<noteq> JUndefined \<longrightarrow>
                  (\<forall>s. property vars varName \<noteq> JString s) \<longrightarrow>
                    uniformFunction X varName (Some vars) ctx = Inr (property vars varName, ctx))"
      by (intro allI) (rule uniformFunction_cases)
  qed
  show ?thesis
    apply (rule exI [of _ c], rule exI [of _ shapeMask], rule exI [of _ b], rule exI [of _ vc],
        rule exI [of _ fc])
    using c shapeMask state [unfolded st] 1 2 3 4 by (intro conjI)
qed

text \<open>Claim C3 at a style whose size is the variable \<^verbatim>\<open>x\<close>, with \<^verbatim>\<open>x = 5\<close>.\<close>

theorem variable_uniforms_witness:
  "\<exists>result.
     parseLiteralStyle sample_expressions
       ((styleOf ((plainSymbol ''square'')\<lparr>symbol_size := JArray [JString ''var'', JString ''x'']\<rparr>))
          \<lparr>style_variables := Some [''x'' \<mapsto> JNumber 5]\<rparr>) = Inr result \<and>
     uniforms (builder result) = [''float u_x''] \<and>
     result_uniforms result ''u_x'' =
       Some (UniformFunction (uniformFunction sample_expressions ''x'')) \<and>
     uniformFunction sample_expressions ''x'' None (result_vertContext result) =
       Inl (MissingVariable ''x'') \<and>
     uniformFunction sample_expressions ''x'' (Some [''x'' \<mapsto> JNumber 5])
       (result_vertContext result) = Inr (JNumber 5, result_vertContext result)"
proof -
  let ?style =
    "(styleOf ((plainSymbol ''square'')\<lparr>symbol_size := JArray [JString ''var'', JString ''x'']\<rparr>))
       \<lparr>style_variables := Some [''x'' \<mapsto> JNumber 5]\<rparr>"
  let ?X = sample_expressions
  have "\<exists>result. parseLiteralStyle ?X ?style = Inr result"
    by (simp add: model_defs sample_defs)
  then obtain result where r: "parseLiteralStyle ?X ?style = Inr result" ..
  from variable_uniforms [OF r] obtain c shapeMask b vc fc where
    c: "compileSymbol ?X (symbol ?style) = Inr c" and
    f: "compileFilter ?X ?style c (configuredBuilder (symbol ?style) c shapeMask) =
          Inr (b, vc, fc)" and
    u: "uniforms (builder result) =
             map (\<lambda>varName. ''float '' @ uniformNameForVariable ?X varName) (variables fc) @
             (if symbolType (symbol ?style) = JString ''image'' \<and> truthy (src (symbol ?style))
              then [''sampler2D u_texture''] else [])" and
    a: "\<forall>varName \<in> set (variables fc).
              (\<exists>v' \<in> set (variables fc).
                 uniformNameForVariable ?X v' = uniformNameForVariable ?X varName \<and>
                 result_uniforms result (uniformNameForVariable ?X varName) =
                   (if symbolType (symbol ?style) = JString ''image'' \<and>
                       truthy (src (symbol ?style)) \<and>
                       uniformNameForVariable ?X varName = ''u_texture''
                    then Some (UniformTexture
                           \<lparr>image_crossOrigin =
                              (if crossOrigin (symbol ?style) = JUndefined then JString ''anonymous''
                               else crossOrigin (symbol ?style)),
                            image_src = src (symbol ?style)\<rparr>)
                    else Some (UniformFunction (uniformFunction ?X v')))) \<and>
              (\<forall>vars ctx.
                 uniformFunction ?X varName None ctx = Inl (MissingVariable varName) \<and>
                 (property vars varName = JUndefined \<longrightarrow>
                    uniformFunction ?X varName (Some vars) ctx = Inl (MissingVariable varName)) \<and>
                 (\<forall>s. property vars varName = JString s \<longrightarrow>
                    uniformFunction ?X varName (Some vars) ctx =
                      (case getStringNumberEquivalent ?X ctx s of
                         Inl message \<Rightarrow> Inl (ExpressionError message)
                       | Inr (value, ctx') \<Rightarrow>
                           Inr (if value = JUndefined then JNumber (- 9999999) else value, ctx'))) \<and>
                 (property vars varName \<noteq> JUndefined \<longrightarrow>
                  (\<forall>s. property vars varName \<noteq> JString s) \<longrightarrow>
                    uniformFunction ?X varName (Some vars) ctx = Inr (property vars varName, ctx)))"
    by (elim exE conjE) (rule that)
  from c have "variables (fragContext c) = [''x'']"
    by (auto simp: model_defs sample_defs)
  moreover from f have "fc = fragContext c"
    by (simp add: compileFilter_def styleOf_def)
  ultimately have vs: "variables fc = [''x'']" by simp
  then have x: "''x'' \<in> set (variables fc)" by simp
  have img: "symbolType (symbol ?style) \<noteq> JString ''image''"
    by (simp add: styleOf_def plainSymbol_def)
  have un: "uniformNameForVariable ?X v = ''u_'' @ v" for v
    by (simp add: sample_expressions_def)
  from u vs img have 1: "uniforms (builder result) = [''float u_x'']"
    by (simp add: un)
  from bspec [OF a x] obtain v' where
    v': "v' \<in> set (variables fc)"
      "uniformNameForVariable ?X v' = uniformNameForVariable ?X ''x''"
      "result_uniforms result (uniformNameForVariable ?X ''x'') =
         (if symbolType (symbol ?style) = JString ''image'' \<and>
             truthy (src (symbol ?style)) \<and>
             uniformNameForVariable ?X ''x'' = ''u_texture''
          then Some (UniformTexture
                 \<lparr>image_crossOrigin =
                    (if crossOrigin (symbol ?style) = JUndefined then JString ''anonymous''
                     else crossOrigin (symbol ?style)),
                  image_src = src (symbol ?style)\<rparr>)
          else Some (UniformFunction (uniformFunction ?X v')))"
    by blast
  from v'(1) vs have "v' = ''x''" by simp
  with v'(3) img have 2:
    "result_uniforms result ''u_x'' = Some (UniformFunction (uniformFunction ?X ''x''))"
    by (simp add: un)
  from bspec [OF a x] have
    3: "uniformFunction ?X ''x'' None (result_vertContext result) = Inl (MissingVariable ''x'')" and
    4: "property [''x'' \<mapsto> JNumber 5] ''x'' \<noteq> JUndefined \<longrightarrow>
        (\<forall>s. property [''x'' \<mapsto> JNumber 5] ''x'' \<noteq> JString s) \<longrightarrow>
        uniformFunction ?X ''x'' (Some [''x'' \<mapsto> JNumber 5]) (result_vertContext result) =
          Inr (property [''x'' \<mapsto> JNumber 5] ''x'', result_vertContext result)"
    by blast+
  have p: "property [''x'' \<mapsto> JNumber 5] ''x'' = JNumber 5" by (simp add: property_def)
  from 4 have 5:
    "uniformFunction ?X ''x'' (Some [''x'' \<mapsto> JNumber 5]) (result_vertContext result) =
       Inr (JNumber 5, result_vertContext result)"
    unfolding p by simp
  from r 1 2 3 5 show ?thesis by blast
qed

text \<open>
  Claim C3, as stated, fails when the key is present and its value is
  \<^verbatim>\<open>undefined\<close>: the function stored for the variable throws, it does not return
  \<open>-9999999\<close>.
\<close>

theorem variable_uniforms_counterexample:
  "map_sum id (\<lambda>result. result_uniforms result ''u_x'')
     (parseLiteralStyle sample_expressions
        ((styleOf ((plainSymbol ''square'')\<lparr>symbol_size := JArray [JString ''var'', JString ''x'']\<rparr>))
           \<lparr>style_variables := Some [''x'' \<mapsto> JUndefined]\<rparr>)) =
     Inr (Some (UniformFunction (uniformFunction sample_expressions ''x''))) \<and>
   map_sum id result_vertContext
     (parseLiteralStyle sample_expressions
        ((styleOf ((plainSymbol ''square'')\<lparr>symbol_size := JArray [JString ''var'', JString ''x'']\<rparr>))
           \<lparr>style_variables := Some [''x'' \<mapsto> JUndefined]\<rparr>)) =
     Inr \<lparr>inFragmentShader = False, variables = [''x''], context_attributes = [],
          stringLiteralsMap = [], context_functions = []\<rparr> \<and>
   uniformFunction sample_expressions ''x'' (Some [''x'' \<mapsto> JUndefined])
     \<lparr>inFragmentShader = False, variables = [''x''], context_attributes = [],
      stringLiteralsMap = [], context_functions = []\<rparr> =
     Inl (MissingVariable ''x'')"
  by (simp add: model_defs sample_defs uniformFunction_def property_def Let_def)

text \<open>
  Claim C7. For every attribute name of the fragment context,
  \<^verbatim>\<open>parseLiteralStyle\<close> adds the name to the attributes of the vertex context
  unless it is there, adds the varying \<^verbatim>\<open>v_<name>\<close> of type \<^verbatim>\<open>float\<close>
  assigned from \<^verbatim>\<open>a_<name>\<close>, declares the attribute \<^verbatim>\<open>float a_<name>\<close>,
  and returns an entry for the name whose callback reads the name in the properties:
  \<open>-9999999\<close> when the value is \<^verbatim>\<open>undefined\<close>, the result of
  \<^verbatim>\<open>getStringNumberEquivalent\<close> on the vertex context (which holds the shared
  literal table) when it is a string, the value itself otherwise.
\<close>

theorem attribute_bridging:
  assumes "parseLiteralStyle X style = Inr result"
  shows "\<exists>c shapeMask b vc fc.
           compileSymbol X (symbol style) = Inr c \<and>
           opacityFilter (symbol style) (visibleSize c) = Inr shapeMask \<and>
           compileFilter X style c (configuredBuilder (symbol style) c shapeMask) = Inr (b, vc, fc) \<and>
           (\<exists>new. context_attributes (result_vertContext result) = context_attributes vc @ new \<and>
                  set new = set (context_attributes fc) - set (context_attributes vc) \<and>
                  distinct new) \<and>
           stringLiteralsMap (result_vertContext result) = stringLiteralsMap fc \<and>
           varyings (builder result) =
             map (\<lambda>name. \<lparr>varying_name = ''v_'' @ name, varying_type = ''float'',
                           varying_expression = ''a_'' @ name\<rparr>) (context_attributes fc) \<and>
           attributes (builder result) =
             map (\<lambda>name. ''float a_'' @ name) (context_attributes (result_vertContext result)) \<and>
           result_attributes result =
             map (\<lambda>name. \<lparr>attribute_name = name, callback = attributeCallback X name\<rparr>)
               (context_attributes (result_vertContext result)) \<and>
           (\<forall>name \<in> set (context_attributes fc).
              name \<in> set (context_attributes (result_vertContext result)) \<and>
              \<lparr>varying_name = ''v_'' @ name, varying_type = ''float'',
               varying_expression = ''a_'' @ name\<rparr> \<in> set (varyings (builder result)) \<and>
              ''float a_'' @ name \<in> set (attributes (builder result)) \<and>
              \<lparr>attribute_name = name, callback = attributeCallback X name\<rparr>
                \<in> set (result_attributes result) \<and>
              (\<forall>props ctx.
                 (property props name = JUndefined \<longrightarrow>
                    attributeCallback X name props ctx = Inr (JNumber (- 9999999), ctx)) \<and>
                 (\<forall>s. property props name = JString s \<longrightarrow>
                    attributeCallback X name props ctx =
                      (case getStringNumberEquivalent X ctx s of
                         Inl message \<Rightarrow> Inl (ExpressionError message)
                       | Inr (value, ctx') \<Rightarrow>
                           Inr (if value = JUndefined then JNumber (- 9999999) else value, ctx'))) \<and>
                 (property props name \<noteq> JUndefined \<longrightarrow>
                  (\<forall>s. property props name \<noteq> JString s) \<longrightarrow>
                    attributeCallback X name props ctx = Inr (property props name, ctx))))"
proof -
  from assms obtain c shapeMask state where
    c: "compileSymbol X (symbol style) = Inr c" and
    shapeMask: "opacityFilter (symbol style) (visibleSize c) = Inr shapeMask" and
    state: "compileFilter X style c (configuredBuilder (symbol style) c shapeMask) = Inr state" and
    result: "result = finish X (symbol style) state"
    unfolding parseLiteralStyle_Inr by blast
  obtain b vc fc where st: "state = (b, vc, fc)" by (cases state) auto
  note e = compileFilter_state [OF c state [unfolded st]]
  from finish_vertContext [of X "symbol style" b vc fc] obtain new where
    new: "result_vertContext result = vc\<lparr>context_attributes := context_attributes vc @ new\<rparr>"
      "set new = set (context_attributes fc) - set (context_attributes vc)" "distinct new"
    unfolding result st by blast
  have 1: "context_attributes (result_vertContext result) = context_attributes vc @ new"
    using new(1) by simp
  have 2: "stringLiteralsMap (result_vertContext result) = stringLiteralsMap fc"
    using new(1) e by simp
  have 3: "varyings (builder result) =
             map (\<lambda>name. \<lparr>varying_name = ''v_'' @ name, varying_type = ''float'',
                           varying_expression = ''a_'' @ name\<rparr>) (context_attributes fc)"
    unfolding result st finish_builder using e by simp
  have 4: "attributes (builder result) =
             map (\<lambda>name. ''float a_'' @ name) (context_attributes (result_vertContext result))"
    unfolding result st finish_builder using e by simp
  have 5: "result_attributes result =
             map (\<lambda>name. \<lparr>attribute_name = name, callback = attributeCallback X name\<rparr>)
               (context_attributes (result_vertContext result))"
    unfolding result by (rule finish_attributes)
  have 6: "name \<in> set (context_attributes (result_vertContext result))"
    if "name \<in> set (context_attributes fc)" for name
    using that new(2) unfolding 1 by auto
  have 7: "\<forall>name \<in> set (context_attributes fc).
              name \<in> set (context_attributes (result_vertContext result)) \<and>
              \<lparr>varying_name = ''v_'' @ name, varying_type = ''float'',
               varying_expression = ''a_'' @ name\<rparr> \<in> set (varyings (builder result)) \<and>
              ''float a_'' @ name \<in> set (attributes (builder result)) \<and>
              \<lparr>attribute_name = name, callback = attributeCallback X name\<rparr>
                \<in> set (result_attributes result) \<and>
              (\<forall>props ctx.
                 (property props name = JUndefined \<longrightarrow>
                    attributeCallback X name props ctx = Inr (JNumber (- 9999999), ctx)) \<and>
                 (\<forall>s. property props name = JString s \<longrightarrow>
                    attributeCallback X name props ctx =
                      (case getStringNumberEquivalent X ctx s of
                         Inl message \<Rightarrow> Inl (ExpressionError message)
                       | Inr (value, ctx') \<Rightarrow>
                           Inr (if value = JUndefined then JNumber (- 9999999) else value, ctx'))) \<and>
                 (property props name \<noteq> JUndefined \<longrightarrow>
                  (\<forall>s. property props name \<noteq> JString s) \<longrightarrow>
                    attributeCallback X name props ctx = Inr (property props name, ctx)))"
  proof (intro ballI conjI)
    fix name assume n: "name \<in> set (context_attributes fc)"
    show "name \<in> set (context_attributes (result_vertContext result))" by (rule 6 [OF n])
    show "\<lparr>varying_name = ''v_'' @ name, varying_type = ''float'',
           varying_expression = ''a_'' @ name\<rparr> \<in> set (varyings (builder result))"
      unfolding 3 set_map using n by (rule imageI)
    show "''float a_'' @ name \<in> set (attributes (builder result))"
      unfolding 4 set_map using 6 [OF n] by (rule imageI)
    show "\<lparr>attribute_name = name, callback = attributeCallback X name\<rparr>
            \<in> set (result_attributes result)"
      unfolding 5 set_map using 6 [OF n] by (rule imageI)
    show "\<forall>props ctx.
            (property props name = JUndefined \<longrightarrow>
               attributeCallback X name props ctx = Inr (JNumber (- 9999999), ctx)) \<and>
            (\<forall>s. property props name = JString s \<longrightarrow>
               attributeCallback X name props ctx =
                 (case getStringNumberEquivalent X ctx s of
                    Inl message \<Rightarrow> Inl (ExpressionError message)
                  | Inr (value, ctx') \<Rightarrow>
                      Inr (if value = JUndefined then JNumber (- 9999999) else value, ctx'))) \<and>
            (property props name \<noteq> JUndefined \<longrightarrow>
             (\<forall>s. property props name \<noteq> JString s) \<longrightarrow>
               attributeCallback X name props ctx = Inr (property props name, ctx))"
      by (intro allI) (rule attributeCallback_cases)
  qed
  from new(2,3) 1 have 8:
    "\<exists>new. context_attributes (result_vertContext result) = context_attributes vc @ new \<and>
           set new = set (context_attributes fc) - set (context_attributes vc) \<and> distinct new"
    by blast
  show ?thesis
    apply (rule exI [of _ c], rule exI [of _ shapeMask], rule exI [of _ b], rule exI [of _ vc],
        rule exI [of _ fc])
    using c shapeMask state [unfolded st] 8 2 3 4 5 7 by (intro conjI)
qed

text \<open>Claim C7 at a style whose colour reads the attribute \<^verbatim>\<open>speed\<close>.\<close>

theorem attribute_bridging_witness:
  "\<exists>result.
     parseLiteralStyle sample_expressions
       (styleOf ((plainSymbol ''square'')\<lparr>color := JArray [JString ''get'', JString ''speed'']\<rparr>)) =
       Inr result \<and>
     ''float a_speed'' \<in> set (attributes (builder result)) \<and>
     \<lparr>varying_name = ''v_speed'', varying_type = ''float'', varying_expression = ''a_speed''\<rparr>
       \<in> set (varyings (builder result)) \<and>
     \<lparr>attribute_name = ''speed'', callback = attributeCallback sample_expressions ''speed''\<rparr>
       \<in> set (result_attributes result) \<and>
     attributeCallback sample_expressions ''speed'' Map.empty (result_vertContext result) =
       Inr (JNumber (- 9999999), result_vertContext result)"
proof -
  let ?style =
    "styleOf ((plainSymbol ''square'')\<lparr>color := JArray [JString ''get'', JString ''speed'']\<rparr>)"
  have "\<exists>result. parseLiteralStyle sample_expressions ?style = Inr result"
    by (simp add: model_defs sample_defs)
  then obtain result where r: "parseLiteralStyle sample_expressions ?style = Inr result" ..
  from attribute_bridging [OF r] obtain c shapeMask b vc fc where
    c: "compileSymbol sample_expressions (symbol ?style) = Inr c" and
    f: "compileFilter sample_expressions ?style c
          (configuredBuilder (symbol ?style) c shapeMask) = Inr (b, vc, fc)" and
    a: "\<forall>name \<in> set (context_attributes fc).
              name \<in> set (context_attributes (result_vertContext result)) \<and>
              \<lparr>varying_name = ''v_'' @ name, varying_type = ''float'',
               varying_expression = ''a_'' @ name\<rparr> \<in> set (varyings (builder result)) \<and>
              ''float a_'' @ name \<in> set (attributes (builder result)) \<and>
              \<lparr>attribute_name = name, callback = attributeCallback sample_expressions name\<rparr>
                \<in> set (result_attributes result) \<and>
              (\<forall>props ctx.
                 (property props name = JUndefined \<longrightarrow>
                    attributeCallback sample_expressions name props ctx =
                      Inr (JNumber (- 9999999), ctx)) \<and>
                 (\<forall>s. property props name = JString s \<longrightarrow>
                    attributeCallback sample_expressions name props ctx =
                      (case getStringNumberEquivalent sample_expressions ctx s of
                         Inl message \<Rightarrow> Inl (ExpressionError message)
                       | Inr (value, ctx') \<Rightarrow>
                           Inr (if value = JUndefined then JNumber (- 9999999) else value, ctx'))) \<and>
                 (property props name \<noteq> JUndefined \<longrightarrow>
                  (\<forall>s. property props name \<noteq> JString s) \<longrightarrow>
                    attributeCallback sample_expressions name props ctx =
                      Inr (property props name, ctx)))"
    by (elim exE conjE) (rule that)
  from c have "context_attributes (fragContext c) = [''speed'']"
    by (auto simp: model_defs sample_defs)
  moreover from f have "fc = fragContext c"
    by (simp add: compileFilter_def styleOf_def)
  ultimately have "''speed'' \<in> set (context_attributes fc)" by simp
  from bspec [OF a this] have
    1: "\<lparr>varying_name = ''v_'' @ ''speed'', varying_type = ''float'',
         varying_expression = ''a_'' @ ''speed''\<rparr> \<in> set (varyings (builder result))" and
    2: "''float a_'' @ ''speed'' \<in> set (attributes (builder result))" and
    3: "\<lparr>attribute_name = ''speed'', callback = attributeCallback sample_expressions ''speed''\<rparr>
          \<in> set (result_attributes result)" and
    4: "property Map.empty ''speed'' = JUndefined \<longrightarrow>
          attributeCallback sample_expressions ''speed'' Map.empty (result_vertContext result) =
            Inr (JNumber (- 9999999), result_vertContext result)"
    by blast+
  have "property Map.empty ''speed'' = JUndefined" by (simp add: property_def)
  with 4 have 5:
    "attributeCallback sample_expressions ''speed'' Map.empty (result_vertContext result) =
       Inr (JNumber (- 9999999), result_vertContext result)" by blast
  from 1 have v1: "\<lparr>varying_name = ''v_speed'', varying_type = ''float'',
       varying_expression = ''a_speed''\<rparr> \<in> set (varyings (builder result))" by simp
  from 2 have v2: "''float a_speed'' \<in> set (attributes (builder result))" by simp
  from r v1 v2 3 5 show ?thesis by blast
qed

text \<open>
  Claim C10. For the symbol type \<^verbatim>\<open>image\<close> with no source (or any falsy
  source), \<^verbatim>\<open>parseLiteralStyle\<close> does what it does for \<^verbatim>\<open>square\<close> with the
  other fields the same. It throws only what the expression compiler throws, and
  returns whenever the compiler returns for the symbol's fields and the filter. The
  returned builder has no sampler uniform, the returned uniforms hold no texture, the
  mask is \<^verbatim>\<open>1.0\<close> and the colour expression has no texture lookup.
\<close>

theorem image_without_source:
  assumes "symbolType (symbol style) = JString ''image''"
    and "\<not> truthy (src (symbol style))"
  shows "parseLiteralStyle X style =
           parseLiteralStyle X
             (style\<lparr>symbol := (symbol style)\<lparr>symbolType := JString ''square''\<rparr>\<rparr>) \<and>
         (\<forall>e. parseLiteralStyle X style = Inl e \<longrightarrow> (\<exists>message. e = ExpressionError message)) \<and>
         (\<forall>c state.
            compileSymbol X (symbol style) = Inr c \<longrightarrow>
            compileFilter X style c (configuredBuilder (symbol style) c ''1.0'') = Inr state \<longrightarrow>
            parseLiteralStyle X style = Inr (finish X (symbol style) state)) \<and>
         (\<forall>result. parseLiteralStyle X style = Inr result \<longrightarrow>
            ''sampler2D u_texture'' \<notin> set (uniforms (builder result)) \<and>
            (\<forall>name texture. result_uniforms result name \<noteq> Some (UniformTexture texture)) \<and>
            (\<exists>c. compileSymbol X (symbol style) = Inr c \<and>
                 opacityFilter (symbol style) (visibleSize c) = Inr ''1.0'' \<and>
                 getColorExpression (builder result) =
                   ''vec4('' @ parsedColor c @ ''.rgb, '' @ parsedColor c @ ''.a * '' @
                   parsedOpacity c @ '' * 1.0)''))"
proof (intro conjI allI impI)
  let ?sq = "(symbol style)\<lparr>symbolType := JString ''square''\<rparr>"
  have cs: "compileSymbol X ?sq = compileSymbol X (symbol style)"
    by (simp add: compileSymbol_def size_or_default_def color_or_default_def
        texCoord_or_default_def offset_or_default_def opacity_or_default_def
        rotation_or_default_def)
  have opf: "opacityFilter ?sq v = opacityFilter (symbol style) v" for v
    using assms(1) by (simp add: opacityFilter_def)
  have cb: "configuredBuilder ?sq c m = configuredBuilder (symbol style) c m" for c m
    by (simp add: configuredBuilder_def)
  have fin: "finish X ?sq state = finish X (symbol style) state" for state
    using assms by (simp add: finish_def imageTexture_def Let_def)
  show "parseLiteralStyle X style =
           parseLiteralStyle X (style\<lparr>symbol := ?sq\<rparr>)"
    by (simp add: parseLiteralStyle_def Let_def cs opf cb fin compileFilter_symbolType)
next
  fix e
  assume e: "parseLiteralStyle X style = Inl e"
  have o: "opacityFilter (symbol style) v = Inr ''1.0''" for v
    using assms(1) by (simp add: opacityFilter_def)
  from e show "\<exists>message. e = ExpressionError message"
    by (auto simp: parseLiteralStyle_def Let_def andThen_def o compileSymbol_def compileFilter_def
        delegated_def split: sum.splits if_splits prod.splits)
next
  fix c state
  assume "compileSymbol X (symbol style) = Inr c"
    and "compileFilter X style c (configuredBuilder (symbol style) c ''1.0'') = Inr state"
  then show "parseLiteralStyle X style = Inr (finish X (symbol style) state)"
    using assms(1) by (simp add: parseLiteralStyle_def Let_def andThen_def opacityFilter_def)
next
  fix result
  assume r: "parseLiteralStyle X style = Inr result"
  from r obtain c shapeMask state where
    c: "compileSymbol X (symbol style) = Inr c" and
    shapeMask: "opacityFilter (symbol style) (visibleSize c) = Inr shapeMask" and
    state: "compileFilter X style c (configuredBuilder (symbol style) c shapeMask) = Inr state" and
    result: "result = finish X (symbol style) state"
    unfolding parseLiteralStyle_Inr by blast
  obtain b vc fc where st: "state = (b, vc, fc)" by (cases state) auto
  from shapeMask assms(1) have m: "shapeMask = ''1.0''" by (simp add: opacityFilter_def)
  have ub: "uniforms b = []"
    using state unfolding st compileFilter_Inr
    by (auto simp: model_defs split: if_splits)
  have cb: "colorExpression b =
              ''vec4('' @ parsedColor c @ ''.rgb, '' @ parsedColor c @ ''.a * '' @
              parsedOpacity c @ '' * 1.0)''"
    using state unfolding st compileFilter_Inr m
    by (auto simp: configuredBuilder_def setColorExpression_def setFragmentDiscardExpression_def
        split: if_splits)
  show "''sampler2D u_texture'' \<notin> set (uniforms (builder result))"
    unfolding result st finish_builder using assms(2) by (auto simp: ub)
  show "result_uniforms result name \<noteq> Some (UniformTexture texture)" for name texture
    unfolding result st using assms(2)
    by (simp add: finish_def Let_def imageTexture_def fold_defineUniform_no_texture)
  show "\<exists>c. compileSymbol X (symbol style) = Inr c \<and>
                 opacityFilter (symbol style) (visibleSize c) = Inr ''1.0'' \<and>
                 getColorExpression (builder result) =
                   ''vec4('' @ parsedColor c @ ''.rgb, '' @ parsedColor c @ ''.a * '' @
                   parsedOpacity c @ '' * 1.0)''"
    apply (rule exI [of _ c])
    using c shapeMask m assms(2) unfolding result st getColorExpression_def finish_builder
    by (simp add: cb)
qed

text \<open>Claim C10 at an image symbol with every other field absent.\<close>

theorem image_without_source_witness:
  "parseLiteralStyle sample_expressions (styleOf (plainSymbol ''image'')) =
     parseLiteralStyle sample_expressions (styleOf (plainSymbol ''square'')) \<and>
   (\<exists>result.
      parseLiteralStyle sample_expressions (styleOf (plainSymbol ''image'')) = Inr result \<and>
      ''sampler2D u_texture'' \<notin> set (uniforms (builder result)) \<and>
      getColorExpression (builder result) = ''vec4(white.rgb, white.a * 1.0 * 1.0)'')"
proof -
  let ?style = "styleOf (plainSymbol ''image'')"
  have h1: "symbolType (symbol ?style) = JString ''image''"
    by (simp add: styleOf_def plainSymbol_def)
  have h2: "\<not> truthy (src (symbol ?style))"
    by (simp add: styleOf_def plainSymbol_def)
  note w = image_without_source [OF h1 h2, of sample_expressions]
  have sq: "?style\<lparr>symbol := (symbol ?style)\<lparr>symbolType := JString ''square''\<rparr>\<rparr> =
            styleOf (plainSymbol ''square'')"
    by (simp add: styleOf_def plainSymbol_def)
  have eq: "parseLiteralStyle sample_expressions ?style =
            parseLiteralStyle sample_expressions (styleOf (plainSymbol ''square''))"
    using w sq by simp
  have "\<exists>result. parseLiteralStyle sample_expressions ?style = Inr result"
    by (simp add: model_defs sample_defs)
  then obtain result where r: "parseLiteralStyle sample_expressions ?style = Inr result" ..
  from w r have u: "''sampler2D u_texture'' \<notin> set (uniforms (builder result))"
    by blast
  from w r obtain c where
    c: "compileSymbol sample_expressions (symbol ?style) = Inr c" and
    col: "getColorExpression (builder result) =
            ''vec4('' @ parsedColor c @ ''.rgb, '' @ parsedColor c @ ''.a * '' @
            parsedOpacity c @ '' * 1.0)''"
    by blast
  from c have "parsedColor c = ''white'' \<and> parsedOpacity c = ''1.0''"
    by (auto simp: model_defs sample_defs)
  with col have "getColorExpression (builder result) = ''vec4(white.rgb, white.a * 1.0 * 1.0)''"
    by simp
  with eq r u show ?thesis by blast
qed

end
